theory Spec2Isabelle
  imports Complex_Main
begin

section \<open>JavaScript strings and numbers\<close>

text \<open>
  A JavaScript string is a sequence of code units; the model uses \<^typ>\<open>string\<close>, so it
  covers the strings whose code units are below 256. Numbers that the code handles are
  integers (a status code, a timer id, a time in milliseconds) except the result of
  \<open>Math.random()\<close> and its product with the length of the alphabet, which are doubles.
\<close>

definition quote :: char where
  "quote = CHR 0x27"

text \<open>\<open>String.prototype.startsWith\<close>.\<close>

definition startsWith :: "string \<Rightarrow> string \<Rightarrow> bool" where
  "startsWith s p = (take (length p) s = p)"

text \<open>\<open>String.prototype.charAt\<close>: the empty string when the index is out of range.\<close>

definition charAt :: "string \<Rightarrow> int \<Rightarrow> string" where
  "charAt s i = (if 0 \<le> i \<and> i < int (length s) then [s ! nat i] else [])"

text \<open>
  The white space and line terminators that \<open>String.prototype.trim\<close> removes, among
  the code units below 256: TAB, LF, VT, FF, CR, SPACE and NO-BREAK SPACE.
\<close>

definition is_whitespace :: "char \<Rightarrow> bool" where
  "is_whitespace c = (of_char c \<in> {9, 10, 11, 12, 13, 32, 160 :: nat})"

definition trim :: "string \<Rightarrow> string" where
  "trim s = rev (dropWhile is_whitespace (rev (dropWhile is_whitespace s)))"

text \<open>\<open>String.prototype.split\<close> with a separator of one character.\<close>

fun split :: "char \<Rightarrow> string \<Rightarrow> string list" where
  "split sep [] = [[]]"
| "split sep (c # cs) =
     (if c = sep then [] # split sep cs
      else (case split sep cs of [] \<Rightarrow> [[c]] | p # ps \<Rightarrow> (c # p) # ps))"

text \<open>A number in a template literal: the decimal digits of an integer, with its sign.\<close>

definition digit_char :: "nat \<Rightarrow> char" where
  "digit_char d = ''0123456789'' ! d"

function digits :: "nat \<Rightarrow> string" where
  "digits n = (if n < 10 then [digit_char n] else digits (n div 10) @ [digit_char (n mod 10)])"
  by pat_completeness auto
termination
  by (relation "measure id") auto

definition number_to_string :: "int \<Rightarrow> string" where
  "number_to_string i = (if i < 0 then CHR ''-'' # digits (nat (- i)) else digits (nat i))"


subsection \<open>Doubles\<close>

text \<open>
  A finite double that is not negative is a mantissa below \<open>2^53\<close> times a power of two
  whose exponent is at least \<open>- 1074\<close>; its value is below \<open>2^1024\<close>. Negative numbers and
  \<open>NaN\<close> do not arise in this program; infinity, the result of an overflow, is \<open>None\<close>.
\<close>

record double =
  mantissa :: nat
  exponent :: int

text \<open>The number of binary digits of a natural number.\<close>

function bit_length :: "nat \<Rightarrow> nat" where
  "bit_length n = (if n = 0 then 0 else Suc (bit_length (n div 2)))"
  by pat_completeness auto
termination
  by (relation "measure id") auto

definition is_double :: "double \<Rightarrow> bool" where
  "is_double d =
     (mantissa d < 2 ^ 53 \<and> - 1074 \<le> exponent d \<and>
      int (bit_length (mantissa d)) + exponent d \<le> 1024)"

definition double_value :: "double \<Rightarrow> real" where
  "double_value d =
     (if 0 \<le> exponent d then real (mantissa d) * 2 ^ nat (exponent d)
      else real (mantissa d) / 2 ^ nat (- exponent d))"

text \<open>The quotient of \<open>m\<close> by \<open>d\<close>, rounded to the nearest integer, a tie to the even one.\<close>

definition round_half_even :: "nat \<Rightarrow> nat \<Rightarrow> nat" where
  "round_half_even m d =
     (let q = m div d; r = m mod d
      in if 2 * r < d then q
         else if d < 2 * r then q + 1
         else if even q then q else q + 1)"

text \<open>
  The double nearest to \<open>m * 2^e\<close>, as IEEE 754 rounds the exact result of an operation
  (to nearest, ties to even): the result keeps 53 binary digits, or fewer where the
  exponent would fall below \<open>- 1074\<close>, and is infinity when the rounded value reaches
  \<open>2^1024\<close>.
\<close>

definition double_round :: "nat \<Rightarrow> int \<Rightarrow> double option" where
  "double_round m e =
     (let s = max (int (bit_length m) - 53) (- 1074 - e);
          d = (if s \<le> 0 then \<lparr>mantissa = m, exponent = e\<rparr>
               else \<lparr>mantissa = round_half_even m (2 ^ nat s), exponent = e + s\<rparr>)
      in if 1024 < int (bit_length (mantissa d)) + exponent d then None else Some d)"

text \<open>The operator \<open>*\<close> on two such doubles: the exact product, rounded.\<close>

definition double_times :: "double \<Rightarrow> double \<Rightarrow> double option" where
  "double_times a b = double_round (mantissa a * mantissa b) (exponent a + exponent b)"

text \<open>An integer below \<open>2^53\<close>, such as the length of a string, as a double.\<close>

definition double_of_nat :: "nat \<Rightarrow> double" where
  "double_of_nat n = \<lparr>mantissa = n, exponent = 0\<rparr>"

text \<open>\<open>Math.floor\<close> on a finite double.\<close>

definition double_floor :: "double \<Rightarrow> int" where
  "double_floor d =
     (if 0 \<le> exponent d then int (mantissa d * 2 ^ nat (exponent d))
      else int (mantissa d div 2 ^ nat (- exponent d)))"


section \<open>Regular expressions\<close>

text \<open>
  The two patterns of the source use literals, one capture group, and \<open>*\<close> and \<open>+\<close> on a
  character class. A pattern is the list of its items; \<open>match_here\<close> is the backtracking
  matcher of JavaScript at one start position (a greedy quantifier takes one more
  character first and gives it back when the rest of the pattern fails), and returns the
  text of the capture group. \<open>search\<close> tries the start positions from left to right, as
  \<open>String.prototype.match\<close> does for a pattern without the \<open>g\<close> flag.
\<close>

datatype char_class = NoneOf string | Ranges "(char \<times> char) list"

fun class_mem :: "char_class \<Rightarrow> char \<Rightarrow> bool" where
  "class_mem (NoneOf cs) c = (c \<notin> set cs)"
| "class_mem (Ranges rs) c =
     list_ex (\<lambda>(lo, hi). (of_char lo :: nat) \<le> of_char c \<and> (of_char c :: nat) \<le> of_char hi) rs"

datatype item = Lit char | Star char_class | Plus char_class | GroupOpen | GroupClose

fun match_here :: "item list \<Rightarrow> string \<Rightarrow> bool \<Rightarrow> string \<Rightarrow> string option" where
  "match_here [] s g cap = Some cap"
| "match_here (Lit c # p) [] g cap = None"
| "match_here (Lit c # p) (x # xs) g cap =
     (if x = c then match_here p xs g (if g then cap @ [x] else cap) else None)"
| "match_here (Star k # p) [] g cap = match_here p [] g cap"
| "match_here (Star k # p) (x # xs) g cap =
     (if class_mem k x then
        (case match_here (Star k # p) xs g (if g then cap @ [x] else cap) of
           Some r \<Rightarrow> Some r
         | None \<Rightarrow> match_here p (x # xs) g cap)
      else match_here p (x # xs) g cap)"
| "match_here (Plus k # p) [] g cap = None"
| "match_here (Plus k # p) (x # xs) g cap =
     (if class_mem k x then match_here (Star k # p) xs g (if g then cap @ [x] else cap)
      else None)"
| "match_here (GroupOpen # p) s g cap = match_here p s True []"
| "match_here (GroupClose # p) s g cap = match_here p s False cap"

fun search :: "item list \<Rightarrow> string \<Rightarrow> string option" where
  "search p [] = match_here p [] False []"
| "search p (x # xs) =
     (case match_here p (x # xs) False [] of
        Some r \<Rightarrow> Some r
      | None \<Rightarrow> search p xs)"


section \<open>Constants\<close>

definition DOODSTREAM_BASE_URL :: string where
  "DOODSTREAM_BASE_URL = ''https://dood.li''"

definition RANDOM_STRING_CHARS :: string where
  "RANDOM_STRING_CHARS = ''ABCDEFGHIJKLMNOPQRSTUVWXYZabcdefghijklmnopqrstuvwxyz0123456789''"

text \<open>\<open>/\$\.get\('([^']*\/pass_md5\/[^']*)'/\<close>\<close>

definition PASS_MD5_PATTERN :: "item list" where
  "PASS_MD5_PATTERN =
     map Lit ''$.get('' @ [Lit quote, GroupOpen, Star (NoneOf [quote])] @
     map Lit ''/pass_md5/'' @ [Star (NoneOf [quote]), GroupClose, Lit quote]"

text \<open>\<open>/token=([a-zA-Z0-9]+)/\<close>\<close>

definition TOKEN_PATTERN :: "item list" where
  "TOKEN_PATTERN =
     map Lit ''token='' @
     [GroupOpen,
      Plus (Ranges [(CHR ''a'', CHR ''z''), (CHR ''A'', CHR ''Z''), (CHR ''0'', CHR ''9'')]),
      GroupClose]"

definition DEFAULT_REQUEST_TIMEOUT :: nat where
  "DEFAULT_REQUEST_TIMEOUT = 30000"


section \<open>The platform and the world\<close>

text \<open>
  The errors that the code meets: \<open>Error\<close> is what the source itself throws
  (\<open>new Error(message)\<close>); \<open>TypeError\<close> (a network failure of \<open>fetch\<close>, an invalid URL)
  and \<open>DOMException\<close> (the \<open>AbortError\<close> of an aborted \<open>fetch\<close>) come from the platform.
\<close>

datatype js_error = Error string | TypeError string | DOMException string string

definition AbortError :: js_error where
  "AbortError = DOMException ''AbortError'' ''The operation was aborted.''"

type_synonym headers_t = "(string \<times> string) list"

text \<open>
  A \<open>Response\<close>: its status code and what \<open>response.text()\<close> settles with.
  \<open>response.ok\<close> is true for the statuses 200 to 299.
\<close>

record response =
  status :: nat
  text_result :: "js_error + string"

definition ok :: "response \<Rightarrow> bool" where
  "ok r = (200 \<le> status r \<and> status r \<le> 299)"

text \<open>
  How a call of \<open>fetch\<close> with the abort signal settles: it resolves with a response, it
  rejects with an error of its own before the timer fires, or the timer fires first, the
  controller aborts and \<open>fetch\<close> rejects with an \<open>AbortError\<close>.
\<close>

datatype fetch_outcome = Resolves response | Rejects js_error | TimesOut

text \<open>
  What the code cannot decide by itself is a parameter: the outcome of the n-th call of
  \<open>fetch\<close>, the n-th value of \<open>Math.random()\<close>, the n-th reading of \<open>Date.now()\<close>, and the
  URL parser of the platform (\<open>new URL(input, base).href\<close> and \<open>new URL(input).pathname\<close>,
  which throw a \<open>TypeError\<close> on an invalid URL).
\<close>

record platform =
  fetch :: "nat \<Rightarrow> string \<Rightarrow> headers_t \<Rightarrow> fetch_outcome"
  math_random :: "nat \<Rightarrow> double"
  date_now :: "nat \<Rightarrow> int"
  url_href :: "string \<Rightarrow> string \<Rightarrow> js_error + string"
  url_pathname :: "string \<Rightarrow> js_error + string"

text \<open>The effects of the code, in the order in which they happen.\<close>

datatype event =
    SetTimeout nat nat
  | ClearTimeout nat
  | TimerFired nat
  | Fetch string headers_t
  | ConsoleLog string
  | ConsoleError string js_error

text \<open>
  The world: the effects so far, the timers that are armed (set, neither cleared nor
  fired), the number of timers created, and how often the random source and the clock
  have been read.
\<close>

record world =
  events :: "event list"
  timers :: "nat list"
  timer_count :: nat
  draws :: nat
  clock_reads :: nat

fun requests_of :: "event list \<Rightarrow> (string \<times> headers_t) list" where
  "requests_of [] = []"
| "requests_of (Fetch u h # es) = (u, h) # requests_of es"
| "requests_of (e # es) = requests_of es"

text \<open>The number of calls of \<open>fetch\<close> so far: the index of the next one.\<close>

definition fetch_count :: "world \<Rightarrow> nat" where
  "fetch_count w = length (requests_of (events w))"

definition emit :: "event \<Rightarrow> world \<Rightarrow> world" where
  "emit e w = w\<lparr>events := events w @ [e]\<rparr>"

definition console_log :: "string \<Rightarrow> world \<Rightarrow> world" where
  "console_log msg w = emit (ConsoleLog msg) w"

definition console_error :: "string \<Rightarrow> js_error \<Rightarrow> world \<Rightarrow> world" where
  "console_error msg e w = emit (ConsoleError msg e) w"

text \<open>\<open>catch (error) { console.error(msg, error); throw error; }\<close>\<close>

definition log_and_rethrow :: "string \<Rightarrow> (js_error + 'a) \<times> world \<Rightarrow> (js_error + 'a) \<times> world" where
  "log_and_rethrow msg rw =
     (case rw of
        (Inl e, w) \<Rightarrow> (Inl e, console_error msg e w)
      | (Inr v, w) \<Rightarrow> (Inr v, w))"

definition setTimeout :: "nat \<Rightarrow> world \<Rightarrow> nat \<times> world" where
  "setTimeout ms w =
     (timer_count w,
      emit (SetTimeout (timer_count w) ms)
        (w\<lparr>timers := timer_count w # timers w, timer_count := Suc (timer_count w)\<rparr>))"

definition clearTimeout :: "nat \<Rightarrow> world \<Rightarrow> world" where
  "clearTimeout t w = emit (ClearTimeout t) (w\<lparr>timers := removeAll t (timers w)\<rparr>)"

definition timer_fires :: "nat \<Rightarrow> world \<Rightarrow> world" where
  "timer_fires t w = emit (TimerFired t) (w\<lparr>timers := removeAll t (timers w)\<rparr>)"


section \<open>The extension\<close>

definition getHeaders :: headers_t where
  "getHeaders =
     [(''User-Agent'',
       ''Mozilla/5.0 (Windows NT 10.0; Win64; x64) AppleWebKit/537.36 (KHTML, like Gecko) Chrome/120.0.0.0 Safari/537.36''),
      (''Referer'', DOODSTREAM_BASE_URL @ ''/''),
      (''Origin'', ''https://dood.li''),
      (''Accept'', ''*/*''),
      (''Accept-Language'', ''en-US,en;q=0.9'')]"

text \<open>
  \<open>_makeRequest\<close>: the timer is set, \<open>fetch\<close> is called, and the timer is cleared on the
  line after the \<open>await\<close>, which runs only when \<open>fetch\<close> has resolved.
\<close>

definition makeRequest_try :: "platform \<Rightarrow> string \<Rightarrow> headers_t \<Rightarrow> world \<Rightarrow> (js_error + response) \<times> world" where
  "makeRequest_try P url hs w =
     (let (timeoutId, w1) = setTimeout DEFAULT_REQUEST_TIMEOUT w;
          outcome = fetch P (fetch_count w1) url hs;
          w2 = emit (Fetch url hs) w1
      in case outcome of
           Rejects e \<Rightarrow> (Inl e, w2)
         | TimesOut \<Rightarrow> (Inl AbortError, timer_fires timeoutId w2)
         | Resolves r \<Rightarrow>
             (let w3 = clearTimeout timeoutId w2
              in if \<not> ok r
                 then (Inl (Error (''HTTP error! status: '' @ number_to_string (int (status r)))), w3)
                 else (Inr r, w3)))"

definition makeRequest :: "platform \<Rightarrow> string \<Rightarrow> headers_t \<Rightarrow> world \<Rightarrow> (js_error + response) \<times> world" where
  "makeRequest P url hs w =
     log_and_rethrow (''Request failed for '' @ url @ '':'') (makeRequest_try P url hs w)"

text \<open>\<open>_extractData\<close>: \<open>match ? match[1] : null\<close>.\<close>

definition extractData :: "item list \<Rightarrow> string \<Rightarrow> string option" where
  "extractData pattern content = search pattern content"

text \<open>
  \<open>RANDOM_STRING_CHARS.charAt(Math.floor(x * RANDOM_STRING_CHARS.length))\<close> for a value
  \<open>x\<close> of \<open>Math.random()\<close>: the product is the double product, and \<open>charAt\<close> of infinity
  is the empty string.
\<close>

definition random_char :: "double \<Rightarrow> string" where
  "random_char x =
     (case double_times x (double_of_nat (length RANDOM_STRING_CHARS)) of
        None \<Rightarrow> []
      | Some product \<Rightarrow> charAt RANDOM_STRING_CHARS (double_floor product))"

text \<open>\<open>_generateRandomString\<close>: the loop, with the number of characters still to add.\<close>

fun generateRandomString_loop :: "platform \<Rightarrow> nat \<Rightarrow> string \<Rightarrow> world \<Rightarrow> string \<times> world" where
  "generateRandomString_loop P 0 result w = (result, w)"
| "generateRandomString_loop P (Suc n) result w =
     generateRandomString_loop P n
       (result @ random_char (math_random P (draws w)))
       (w\<lparr>draws := Suc (draws w)\<rparr>)"

definition generateRandomString :: "platform \<Rightarrow> nat \<Rightarrow> world \<Rightarrow> string \<times> world" where
  "generateRandomString P len w = generateRandomString_loop P len [] w"

text \<open>
  \<open>_extractPassMd5Url\<close>: \<open>!passMd5Url\<close> holds for \<open>null\<close> and for the empty string.
  \<open>fullUrl\<close> is the variable of that name: the fragment itself when it starts with
  \<open>http\<close>, and what the URL parser makes of it and the base URL otherwise.
\<close>

definition fullUrl :: "platform \<Rightarrow> string \<Rightarrow> js_error + string" where
  "fullUrl P passMd5Url =
     (if \<not> startsWith passMd5Url ''http''
      then url_href P passMd5Url DOODSTREAM_BASE_URL
      else Inr passMd5Url)"

definition extractPassMd5Url :: "platform \<Rightarrow> string \<Rightarrow> string \<Rightarrow> world \<Rightarrow> (js_error + string) \<times> world" where
  "extractPassMd5Url P content embedUrl w =
     (case extractData PASS_MD5_PATTERN content of
        None \<Rightarrow> (Inl (Error (''pass_md5 URL not found in '' @ embedUrl)), w)
      | Some passMd5Url \<Rightarrow>
          if passMd5Url = [] then (Inl (Error (''pass_md5 URL not found in '' @ embedUrl)), w)
          else
            (case fullUrl P passMd5Url of
               Inl e \<Rightarrow> (Inl e, w)
             | Inr u \<Rightarrow> (Inr u, console_log (''Extracted pass_md5 URL: '' @ u) w)))"

text \<open>\<open>_extractToken\<close>\<close>

definition extractToken :: "string \<Rightarrow> string \<Rightarrow> world \<Rightarrow> (js_error + string) \<times> world" where
  "extractToken content embedUrl w =
     (case extractData TOKEN_PATTERN content of
        None \<Rightarrow> (Inl (Error (''Token not found in '' @ embedUrl)), w)
      | Some token \<Rightarrow>
          if token = [] then (Inl (Error (''Token not found in '' @ embedUrl)), w)
          else (Inr token, console_log (''Extracted token: '' @ token) w))"

text \<open>\<open>_getVideoBaseUrl\<close>\<close>

definition getVideoBaseUrl_try :: "platform \<Rightarrow> string \<Rightarrow> headers_t \<Rightarrow> world \<Rightarrow> (js_error + string) \<times> world" where
  "getVideoBaseUrl_try P passMd5Url hs w =
     (case makeRequest P passMd5Url hs w of
        (Inl e, w1) \<Rightarrow> (Inl e, w1)
      | (Inr md5Response, w1) \<Rightarrow>
          (case text_result md5Response of
             Inl e \<Rightarrow> (Inl e, w1)
           | Inr t \<Rightarrow>
               (let videoBaseUrl = trim t
                in if videoBaseUrl = [] then (Inl (Error ''Empty video base URL received''), w1)
                   else (Inr videoBaseUrl,
                         console_log (''Retrieved video base URL: '' @ videoBaseUrl) w1))))"

definition getVideoBaseUrl :: "platform \<Rightarrow> string \<Rightarrow> headers_t \<Rightarrow> world \<Rightarrow> (js_error + string) \<times> world" where
  "getVideoBaseUrl P passMd5Url hs w =
     log_and_rethrow (''Failed to get video base URL from '' @ passMd5Url @ '':'')
       (getVideoBaseUrl_try P passMd5Url hs w)"

text \<open>
  \<open>_buildDirectLink\<close>. \<open>Date.now()\<close> is an integer number of milliseconds, and
  \<open>Math.floor(Date.now() / 1000)\<close> is its quotient by 1000, rounded down.
\<close>

definition buildDirectLink :: "platform \<Rightarrow> string \<Rightarrow> string \<Rightarrow> world \<Rightarrow> string \<times> world" where
  "buildDirectLink P videoBaseUrl token w =
     (let (randomString, w1) = generateRandomString P 10 w;
          expiry = date_now P (clock_reads w1) div 1000;
          w2 = w1\<lparr>clock_reads := Suc (clock_reads w1)\<rparr>;
          directLink = videoBaseUrl @ randomString @ ''?token='' @ token @ ''&expiry='' @
                       number_to_string expiry
      in (directLink, console_log (''Built direct link: '' @ directLink) w2))"

text \<open>
  \<open>getDirectLink\<close>. The argument is \<open>None\<close> for \<open>null\<close> or \<open>undefined\<close>; the first check is
  outside the \<open>try\<close> block.
\<close>

definition getDirectLink_try :: "platform \<Rightarrow> string \<Rightarrow> world \<Rightarrow> (js_error + string) \<times> world" where
  "getDirectLink_try P embededDoodstreamLink w =
     (let headers = getHeaders;
          w0 = console_log ''Fetching embed page content...'' w
      in case makeRequest P embededDoodstreamLink headers w0 of
           (Inl e, w1) \<Rightarrow> (Inl e, w1)
         | (Inr response, w1) \<Rightarrow>
             (case text_result response of
                Inl e \<Rightarrow> (Inl e, w1)
              | Inr content \<Rightarrow>
                  (case extractPassMd5Url P content embededDoodstreamLink w1 of
                     (Inl e, w2) \<Rightarrow> (Inl e, w2)
                   | (Inr passMd5Url, w2) \<Rightarrow>
                       (case extractToken content embededDoodstreamLink w2 of
                          (Inl e, w3) \<Rightarrow> (Inl e, w3)
                        | (Inr token, w3) \<Rightarrow>
                            (case getVideoBaseUrl P passMd5Url headers w3 of
                               (Inl e, w4) \<Rightarrow> (Inl e, w4)
                             | (Inr videoBaseUrl, w4) \<Rightarrow>
                                 (let (directLink, w5) = buildDirectLink P videoBaseUrl token w4
                                  in (Inr directLink,
                                      console_log ''Successfully extracted Doodstream direct link'' w5)))))))"

definition getDirectLink :: "platform \<Rightarrow> string option \<Rightarrow> world \<Rightarrow> (js_error + string) \<times> world" where
  "getDirectLink P arg w =
     (case arg of
        None \<Rightarrow> (Inl (Error ''Embed URL cannot be empty''), w)
      | Some embededDoodstreamLink \<Rightarrow>
          if embededDoodstreamLink = [] then (Inl (Error ''Embed URL cannot be empty''), w)
          else
            log_and_rethrow ''Failed to extract direct link from Doodstream:''
              (getDirectLink_try P embededDoodstreamLink
                 (console_log (''Extracting direct link from Doodstream: '' @ embededDoodstreamLink) w)))"

text \<open>\<open>getMetadata\<close>\<close>

record metadata =
  mp4 :: string
  name :: string
  quality :: string
  size_m :: "nat option"
  headers :: headers_t

definition getMetadata_try :: "platform \<Rightarrow> string option \<Rightarrow> world \<Rightarrow> (js_error + metadata) \<times> world" where
  "getMetadata_try P arg w =
     (case getDirectLink P arg w of
        (Inl e, w1) \<Rightarrow> (Inl e, w1)
      | (Inr mp4Url, w1) \<Rightarrow>
          (case arg of
             None \<Rightarrow> (Inl (TypeError ''Invalid URL''), w1)
           | Some url \<Rightarrow>
               (case url_pathname P url of
                  Inl e \<Rightarrow> (Inl e, w1)
                | Inr pathname \<Rightarrow>
                    (let pathParts = split CHR ''/'' pathname;
                         fileId = (if last pathParts = [] then ''video'' else last pathParts);
                         fileName = ''doodstream_'' @ fileId @ ''.mp4'';
                         fileSize = None
                     in (Inr \<lparr>mp4 = mp4Url, name = fileName, quality = ''Unknown'',
                              size_m = fileSize, headers = getHeaders\<rparr>, w1)))))"

definition getMetadata :: "platform \<Rightarrow> string option \<Rightarrow> world \<Rightarrow> (js_error + metadata) \<times> world" where
  "getMetadata P arg w = log_and_rethrow ''Failed to get metadata:'' (getMetadata_try P arg w)"


section \<open>Notions used in the properties\<close>

text \<open>
  The n-th call of \<open>fetch\<close>, when it asks for \<open>url\<close> with the headers of \<open>_getHeaders\<close>,
  resolves with a status in the success range, and the body of the response reads as
  \<open>txt\<close>.
\<close>

definition serves :: "platform \<Rightarrow> nat \<Rightarrow> string \<Rightarrow> string \<Rightarrow> bool" where
  "serves P n url txt =
     (\<exists>r. fetch P n url getHeaders = Resolves r \<and> ok r \<and> text_result r = Inr txt)"

text \<open>
  A URL string is absolute when it starts with a scheme: a letter, then letters, digits,
  \<open>+\<close>, \<open>-\<close> and \<open>.\<close>, then a colon. A string that does not is a relative URL.
\<close>

definition is_alpha :: "char \<Rightarrow> bool" where
  "is_alpha c =
     class_mem (Ranges [(CHR ''a'', CHR ''z''), (CHR ''A'', CHR ''Z'')]) c"

definition is_scheme_char :: "char \<Rightarrow> bool" where
  "is_scheme_char c =
     (class_mem (Ranges [(CHR ''a'', CHR ''z''), (CHR ''A'', CHR ''Z''), (CHR ''0'', CHR ''9'')]) c
      \<or> c \<in> set ''+-.'')"

definition has_scheme :: "string \<Rightarrow> bool" where
  "has_scheme s =
     (case s of
        [] \<Rightarrow> False
      | c # cs \<Rightarrow> is_alpha c \<and> take 1 (dropWhile is_scheme_char cs) = '':'')"

text \<open>
  What the URL parser does to its input before it looks at it: it removes the control
  characters and spaces at both ends, and every tab and newline.
\<close>

definition is_c0_or_space :: "char \<Rightarrow> bool" where
  "is_c0_or_space c = ((of_char c :: nat) \<le> 32)"

definition is_tab_or_newline :: "char \<Rightarrow> bool" where
  "is_tab_or_newline c = (of_char c \<in> {9, 10, 13 :: nat})"

definition url_preprocess :: "string \<Rightarrow> string" where
  "url_preprocess s =
     filter (\<lambda>c. \<not> is_tab_or_newline c)
       (rev (dropWhile is_c0_or_space (rev (dropWhile is_c0_or_space s))))"

text \<open>
  A network-path reference starts with two slashes; for a base with the scheme \<open>https\<close>
  the parser reads a backslash as a slash. What follows is a host, not a path.
\<close>

definition is_slash :: "char \<Rightarrow> bool" where
  "is_slash c = (c = CHR ''/'' \<or> c = CHR 0x5C)"

definition network_path :: "string \<Rightarrow> bool" where
  "network_path s = (case s of a # b # rest \<Rightarrow> is_slash a \<and> is_slash b | _ \<Rightarrow> False)"

text \<open>
  A relative URL that names no host: as the parser reads it, it has no scheme and is no
  network-path reference.
\<close>

definition relative_in_origin :: "string \<Rightarrow> bool" where
  "relative_in_origin input =
     (\<not> has_scheme (url_preprocess input) \<and> \<not> network_path (url_preprocess input))"

text \<open>
  The contract of the URL parser that the properties rely on, from the URL standard: a
  relative URL that names no host is resolved, against the base \<open>https://dood.li\<close>, to a
  URL with the scheme and the host of the base, that is, to \<open>https://dood.li/\<close> followed
  by a path, a query and a fragment. (In the states of the parser that such an input goes
  through, nothing fails and the host is the one of the base.)
\<close>

definition standard_parser :: "platform \<Rightarrow> bool" where
  "standard_parser P =
     (\<forall>input. relative_in_origin input \<longrightarrow>
        (\<exists>rest. url_href P input DOODSTREAM_BASE_URL = Inr (DOODSTREAM_BASE_URL @ ''/'' @ rest)))"

text \<open>
  The contract of \<open>Math.random()\<close>: a double that is at least 0 (as every value of the
  type is) and less than 1.
\<close>

definition in_unit_interval :: "double \<Rightarrow> bool" where
  "in_unit_interval x = (is_double x \<and> double_value x < 1)"

text \<open>
  The last of the non-empty segments of a path, and \<open>video\<close> when it has none: the file
  id as the specification words it.
\<close>

definition last_nonempty_segment :: "string \<Rightarrow> string" where
  "last_nonempty_segment pathname =
     (case filter (\<lambda>seg. seg \<noteq> []) (split CHR ''/'' pathname) of
        [] \<Rightarrow> ''video''
      | segs \<Rightarrow> last segs)"


text \<open>
  The random string of \<open>n\<close> characters that is generated when \<open>d\<close> random values have
  been drawn before.
\<close>

definition suffix_at :: "platform \<Rightarrow> nat \<Rightarrow> nat \<Rightarrow> string" where
  "suffix_at P n d =
     fst (generateRandomString P n
       \<lparr>events = [], timers = [], timer_count = 0, draws = d, clock_reads = 0\<rparr>)"


section \<open>A sample platform\<close>

text \<open>
  For the examples: a network given by a table from URLs to outcomes (a URL that is not in
  the table cannot be reached), a random source that repeats after ten values (the
  sixty-fourths of \<open>sample_draws\<close>), a clock
  that advances by a quarter of a second at each reading, and a URL parser given by what
  \<open>new URL\<close> answers at the inputs that the examples use.
\<close>

definition sample_href :: "(string \<times> (js_error + string)) list" where
  "sample_href =
     [(''/pass_md5/xyz'', Inr ''https://dood.li/pass_md5/xyz''),
      (''//cdn.example/pass_md5/xyz'', Inr ''https://cdn.example/pass_md5/xyz''),
      (''//h:99999/pass_md5/x'', Inl (TypeError ''Invalid URL''))]"

definition sample_pathname :: "(string \<times> (js_error + string)) list" where
  "sample_pathname =
     [(''https://dood.li/e/abc123'', Inr ''/e/abc123''),
      (''https://dood.li/e/abc123/'', Inr ''/e/abc123/'')]"

definition sample_draws :: "nat list" where
  "sample_draws = [0, 7, 13, 19, 25, 32, 39, 45, 51, 57]"

definition sample_platform :: "(string \<times> fetch_outcome) list \<Rightarrow> platform" where
  "sample_platform net =
     \<lparr>fetch = (\<lambda>n url hs. case map_of net url of
                  Some outcome \<Rightarrow> outcome
                | None \<Rightarrow> Rejects (TypeError ''Failed to fetch'')),
      math_random = (\<lambda>n. \<lparr>mantissa = sample_draws ! (n mod 10), exponent = - 6\<rparr>),
      date_now = (\<lambda>n. 1700000000000 + 250 * int n),
      url_href = (\<lambda>input base.
         if base = ''https://dood.li''
         then (case map_of sample_href input of
                 Some res \<Rightarrow> res
               | None \<Rightarrow> Inl (TypeError ''Invalid URL''))
         else Inl (TypeError ''Invalid URL'')),
      url_pathname = (\<lambda>input. case map_of sample_pathname input of
                  Some res \<Rightarrow> res
                | None \<Rightarrow> Inl (TypeError ''Invalid URL''))\<rparr>"

text \<open>
  The same platform with a random source that repeats after 32 values only (the
  thirty-seconds from 0 to 31).
\<close>

definition spread_random :: "platform \<Rightarrow> platform" where
  "spread_random P = P\<lparr>math_random := (\<lambda>n. \<lparr>mantissa = n mod 32, exponent = - 5\<rparr>)\<rparr>"

text \<open>
  A URL parser for the examples that keeps the contract \<open>standard_parser\<close>: it puts a
  relative URL that names no host behind the base, without normalising its path, and
  rejects every other input.
\<close>

definition origin_parser :: "string \<Rightarrow> string \<Rightarrow> js_error + string" where
  "origin_parser input base =
     (if relative_in_origin input
      then Inr (base @ ''/'' @ dropWhile is_slash (url_preprocess input))
      else Inl (TypeError ''Invalid URL''))"

definition origin_platform :: "(string \<times> fetch_outcome) list \<Rightarrow> platform" where
  "origin_platform net = (sample_platform net)\<lparr>url_href := origin_parser\<rparr>"

definition initial_world :: world where
  "initial_world = \<lparr>events = [], timers = [], timer_count = 0, draws = 0, clock_reads = 0\<rparr>"

definition ok_response :: "string \<Rightarrow> fetch_outcome" where
  "ok_response txt = Resolves \<lparr>status = 200, text_result = Inr txt\<rparr>"

definition status_response :: "nat \<Rightarrow> fetch_outcome" where
  "status_response st = Resolves \<lparr>status = st, text_result = Inr []\<rparr>"

text \<open>An embed page with a \<open>$.get\<close> call on \<open>fragment\<close>, followed by \<open>rest\<close>.\<close>

definition sample_page :: "string \<Rightarrow> string \<Rightarrow> string" where
  "sample_page fragment rest =
     ''<script>$.get('' @ [quote] @ fragment @ [quote] @ '', function(data) {}); '' @ rest @
     ''</script>''"

definition sample_embed :: string where
  "sample_embed = ''https://dood.li/e/abc123''"

text \<open>
  A network in which \<open>embedUrl\<close> answers with the page \<open>page\<close>, and the pass_md5 endpoint
  of the sample answers with \<open>md5\<close>.
\<close>

definition network :: "string \<Rightarrow> string \<Rightarrow> fetch_outcome \<Rightarrow> (string \<times> fetch_outcome) list" where
  "network embedUrl page md5 =
     [(embedUrl, ok_response page), (''https://dood.li/pass_md5/xyz'', md5)]"

text \<open>The page and the network in which every step of the pipeline succeeds.\<close>

definition sample_content :: string where
  "sample_content = sample_page ''/pass_md5/xyz'' ''?token=abc123&expiry=''"

definition sample_net :: "(string \<times> fetch_outcome) list" where
  "sample_net = network sample_embed sample_content (ok_response '' https://cdn.example/v/ '')"


section \<open>Basic facts\<close>

subsection \<open>The world\<close>

lemma emit_fields [simp]:
  "events (emit e w) = events w @ [e]"
  "timers (emit e w) = timers w"
  "timer_count (emit e w) = timer_count w"
  "draws (emit e w) = draws w"
  "clock_reads (emit e w) = clock_reads w"
  by (simp_all add: emit_def)

lemma requests_of_append [simp]: "requests_of (xs @ ys) = requests_of xs @ requests_of ys"
  by (induction xs rule: requests_of.induct) simp_all

lemma fetch_count_emit [simp]:
  "fetch_count (emit (Fetch u h) w) = Suc (fetch_count w)"
  "fetch_count (emit (SetTimeout t ms) w) = fetch_count w"
  "fetch_count (emit (ClearTimeout t) w) = fetch_count w"
  "fetch_count (emit (TimerFired t) w) = fetch_count w"
  "fetch_count (emit (ConsoleLog m) w) = fetch_count w"
  "fetch_count (emit (ConsoleError m e) w) = fetch_count w"
  by (simp_all add: fetch_count_def)

lemma fetch_count_update [simp]:
  "fetch_count (w\<lparr>timers := ts\<rparr>) = fetch_count w"
  "fetch_count (w\<lparr>timer_count := n\<rparr>) = fetch_count w"
  "fetch_count (w\<lparr>draws := n\<rparr>) = fetch_count w"
  "fetch_count (w\<lparr>clock_reads := n\<rparr>) = fetch_count w"
  by (simp_all add: fetch_count_def)

lemmas world_ops = setTimeout_def clearTimeout_def timer_fires_def console_log_def
  console_error_def log_and_rethrow_def

subsection \<open>Strings\<close>

lemma digit_char_digit: "d < 10 \<Longrightarrow> digit_char d \<in> set ''0123456789''"
  unfolding digit_char_def by (rule nth_mem) simp

lemma digits_are_digits: "digits n \<noteq> [] \<and> set (digits n) \<subseteq> set ''0123456789''"
proof (induction n rule: digits.induct)
  case (1 n)
  show ?case
  proof (cases "n < 10")
    case True
    then show ?thesis using digit_char_digit [of n] by simp
  next
    case False
    have "digit_char (n mod 10) \<in> set ''0123456789''"
      by (rule digit_char_digit) simp
    with False 1 show ?thesis by simp
  qed
qed

lemma trim_blank: "\<forall>c\<in>set s. is_whitespace c \<Longrightarrow> trim s = []"
proof -
  assume "\<forall>c\<in>set s. is_whitespace c"
  then have "dropWhile is_whitespace s = []" by simp
  then show ?thesis by (simp add: trim_def del: dropWhile_eq_Nil_conv)
qed

lemma trim_empty_iff: "trim s = [] \<longleftrightarrow> (\<forall>c\<in>set s. is_whitespace c)"
proof
  assume "\<forall>c\<in>set s. is_whitespace c"
  then show "trim s = []" by (rule trim_blank)
next
  assume "trim s = []"
  then have "\<forall>c\<in>set (dropWhile is_whitespace s). is_whitespace c"
    by (simp add: trim_def)
  then have "dropWhile is_whitespace s = []"
    using hd_dropWhile [of is_whitespace s]
    by (cases "dropWhile is_whitespace s") auto
  then show "\<forall>c\<in>set s. is_whitespace c" by simp
qed

subsection \<open>Doubles\<close>

declare bit_length.simps [simp del]

lemma bit_length_bound: "n < 2 ^ bit_length n"
proof (induction n rule: bit_length.induct)
  case (1 n)
  show ?case
  proof (cases "n = 0")
    case True
    then show ?thesis by (simp add: bit_length.simps)
  next
    case False
    with 1 have "n div 2 < 2 ^ bit_length (n div 2)" by simp
    then have "n < 2 * 2 ^ bit_length (n div 2)" by linarith
    with False show ?thesis by (subst bit_length.simps) simp
  qed
qed

lemma bit_length_le: "n < 2 ^ k \<Longrightarrow> bit_length n \<le> k"
proof (induction n arbitrary: k rule: bit_length.induct)
  case (1 n)
  show ?case
  proof (cases "n = 0")
    case True
    then show ?thesis by (simp add: bit_length.simps)
  next
    case False
    with "1.prems" obtain j where k: "k = Suc j" by (cases k) auto
    with "1.prems" have "n div 2 < 2 ^ j" by simp
    with 1 False have "bit_length (n div 2) \<le> j" by simp
    with False k show ?thesis by (subst bit_length.simps) simp
  qed
qed

lemma bit_length_lower: "0 < n \<Longrightarrow> 2 ^ (bit_length n - 1) \<le> n"
proof (induction n rule: bit_length.induct)
  case (1 n)
  show ?case
  proof (cases "n div 2 = 0")
    case True
    with "1.prems" have "n = 1" by (simp add: div_eq_0_iff)
    then show ?thesis by (simp add: bit_length.simps)
  next
    case False
    with 1 have ih: "2 ^ (bit_length (n div 2) - 1) \<le> n div 2" by simp
    from False have pos: "0 < bit_length (n div 2)" by (subst bit_length.simps) simp
    have "bit_length n = Suc (bit_length (n div 2))"
      using "1.prems" by (subst bit_length.simps) simp
    then have "(2::nat) ^ (bit_length n - 1) = 2 * 2 ^ (bit_length (n div 2) - 1)"
      using pos by (cases "bit_length (n div 2)") simp_all
    with ih show ?thesis by linarith
  qed
qed

lemma round_half_even_upper: "0 < d \<Longrightarrow> 2 * (round_half_even m d * d) \<le> 2 * m + d"
proof -
  assume d: "0 < d"
  define q where "q = m div d"
  define r where "r = m mod d"
  define t where "t = q * d"
  have m: "m = t + r" by (simp add: q_def r_def t_def)
  have succ: "(q + 1) * d = t + d" by (simp add: t_def)
  consider "2 * r < d" | "d \<le> 2 * r" by linarith
  then show ?thesis
  proof cases
    case 1
    then have "round_half_even m d = q"
      by (simp add: round_half_even_def q_def r_def Let_def)
    with m show ?thesis by (simp add: t_def [symmetric])
  next
    case 2
    have "round_half_even m d = q \<or> round_half_even m d = q + 1"
      by (simp add: round_half_even_def q_def r_def Let_def)
    then show ?thesis
    proof
      assume "round_half_even m d = q"
      with m show ?thesis by (simp add: t_def [symmetric])
    next
      assume "round_half_even m d = q + 1"
      with m succ 2 show ?thesis by simp
    qed
  qed
qed

lemma below_one:
  assumes "double_value x < 1" "0 < mantissa x"
  shows "exponent x < 0" and "mantissa x < 2 ^ nat (- exponent x)"
proof -
  show e: "exponent x < 0"
  proof (rule ccontr)
    assume "\<not> exponent x < 0"
    then have "double_value x = real (mantissa x) * 2 ^ nat (exponent x)"
      by (simp add: double_value_def)
    moreover have "1 \<le> real (mantissa x)" using assms(2) by simp
    moreover have "(1::real) \<le> 2 ^ nat (exponent x)" by simp
    ultimately have "1 \<le> double_value x"
      by (metis mult_mono' mult_1 zero_le_one)
    with assms(1) show False by simp
  qed
  then have "real (mantissa x) / 2 ^ nat (- exponent x) < 1"
    using assms(1) by (simp add: double_value_def)
  then have "real (mantissa x) < 2 ^ nat (- exponent x)" by simp
  then show "mantissa x < 2 ^ nat (- exponent x)"
    by (metis of_nat_less_iff of_nat_numeral of_nat_power)
qed

lemma product_index:
  assumes dbl: "is_double x" and one: "double_value x < 1"
  shows "\<exists>p. double_times x (double_of_nat 62) = Some p \<and> 0 \<le> double_floor p \<and> double_floor p < 62"
proof (cases "mantissa x = 0")
  case True
  from dbl True have "- 1074 \<le> exponent x" "exponent x \<le> 1024"
    by (simp_all add: is_double_def)
  with True show ?thesis
    by (simp add: double_times_def double_round_def double_of_nat_def double_floor_def Let_def
      bit_length.simps)
next
  case False
  define m where "m = mantissa x"
  define e where "e = exponent x"
  define k where "k = nat (- e)"
  define M where "M = m * 62"
  define L where "L = bit_length M"
  from False have mpos: "0 < m" by (simp add: m_def)
  from below_one [OF one] False have eneg: "e < 0" and mk: "m < 2 ^ k"
    by (simp_all add: m_def e_def k_def)
  from dbl have m53: "m < 2 ^ 53" and emin: "- 1074 \<le> e"
    by (simp_all add: is_double_def m_def e_def)
  have ek: "e = - int k" using eneg by (simp add: k_def)
  have Mk: "M + 62 \<le> 62 * 2 ^ k" using mk by (simp add: M_def)
  have "M < 62 * 2 ^ 53" using m53 by (simp add: M_def)
  then have "M < 2 ^ 59" by simp
  then have L59: "L \<le> 59" unfolding L_def by (rule bit_length_le)
  have LM: "bit_length M = L" by (simp add: L_def)
  have times: "double_times x (double_of_nat 62) = double_round M e"
    by (simp add: double_times_def double_of_nat_def M_def m_def e_def)
  show ?thesis
  proof (cases "L \<le> 53")
    case True
    then have s: "max (int L - 53) (- 1074 - e) \<le> 0" using emin by simp
    have "M div 2 ^ k < 62"
      using Mk by (intro less_mult_imp_div_less) simp
    then have fl: "double_floor \<lparr>mantissa = M, exponent = e\<rparr> < 62"
      using eneg by (simp add: double_floor_def k_def)
    have "double_round M e = Some \<lparr>mantissa = M, exponent = e\<rparr>"
      unfolding double_round_def Let_def using s True eneg by (simp add: LM)
    with fl show ?thesis
      unfolding times by (simp add: double_floor_def)
  next
    case False
    define j where "j = L - 53"
    from False L59 have j: "1 \<le> j" "j \<le> 6" "L = j + 53" by (simp_all add: j_def)
    have s: "max (int L - 53) (- 1074 - e) = int j" using j emin by simp
    define n where "n = round_half_even M (2 ^ j)"
    have "0 < M" using mpos by (simp add: M_def)
    then have "2 ^ (L - 1) \<le> M" unfolding L_def by (rule bit_length_lower)
    moreover have "(2::nat) ^ 53 \<le> 2 ^ (L - 1)" using j by (intro power_increasing) simp_all
    ultimately have M53: "2 ^ 53 \<le> M" by linarith
    have k48: "48 \<le> k"
    proof (rule ccontr)
      assume "\<not> 48 \<le> k"
      then have "k \<le> 47" by simp
      then have "(2::nat) ^ k \<le> 2 ^ 47" by (intro power_increasing) simp_all
      with Mk M53 show False by simp
    qed
    with j have jk: "j < k" by simp
    have split: "(2::nat) ^ k = 2 ^ (k - j) * 2 ^ j"
      using jk by (simp add: power_add [symmetric])
    have "(2::nat) ^ j \<le> 2 ^ 6" using j by (intro power_increasing) simp_all
    then have pj: "(2::nat) ^ j \<le> 64" by simp
    have "2 * (n * 2 ^ j) \<le> 2 * M + 2 ^ j"
      unfolding n_def by (rule round_half_even_upper) simp
    with Mk pj have "2 * (n * 2 ^ j) < 2 * (62 * 2 ^ k)" by linarith
    then have "n * 2 ^ j < (62 * 2 ^ (k - j)) * 2 ^ j" by (simp add: split)
    then have nb: "n < 62 * 2 ^ (k - j)" by simp
    then have fl: "n div 2 ^ (k - j) < 62"
      by (intro less_mult_imp_div_less) simp
    have "n < 2 ^ 6 * 2 ^ (k - j)" using nb by simp
    then have "n < 2 ^ (6 + (k - j))" by (simp add: power_add)
    then have "bit_length n \<le> 6 + (k - j)" by (rule bit_length_le)
    then have over: "int (bit_length n) + (e + int j) \<le> 1024" using ek jk by simp
    have neg: "e + int j < 0" "nat (- (e + int j)) = k - j" using ek jk by simp_all
    have "double_round M e = Some \<lparr>mantissa = n, exponent = e + int j\<rparr>"
      unfolding double_round_def Let_def using over j s by (simp add: LM n_def)
    moreover have "double_floor \<lparr>mantissa = n, exponent = e + int j\<rparr> < 62"
      using neg fl by (simp add: double_floor_def)
    ultimately show ?thesis
      unfolding times by (simp add: double_floor_def)
  qed
qed

lemma random_char_in_alphabet:
  assumes "in_unit_interval x"
  shows "\<exists>c. random_char x = [c] \<and> c \<in> set RANDOM_STRING_CHARS"
proof -
  have n: "length RANDOM_STRING_CHARS = 62" by (simp add: RANDOM_STRING_CHARS_def)
  from assms obtain p where p: "double_times x (double_of_nat 62) = Some p"
    "0 \<le> double_floor p" "double_floor p < 62"
    using product_index [of x] by (auto simp add: in_unit_interval_def)
  then have "nat (double_floor p) < length RANDOM_STRING_CHARS" using n by simp
  then have "RANDOM_STRING_CHARS ! nat (double_floor p) \<in> set RANDOM_STRING_CHARS"
    by (rule nth_mem)
  with p n show ?thesis by (simp add: random_char_def charAt_def)
qed

text \<open>
  A value of \<open>Math.random()\<close> at which the rounding of the product decides the character:
  the exact product is a little below 32 and the double product is 32.
\<close>

lemma rounded_product_example:
  "in_unit_interval \<lparr>mantissa = 2324438517352514, exponent = - 52\<rparr>"
  "double_times \<lparr>mantissa = 2324438517352514, exponent = - 52\<rparr> (double_of_nat 62) =
     Some \<lparr>mantissa = 9007199254740992, exponent = - 48\<rparr>"
  "random_char \<lparr>mantissa = 2324438517352514, exponent = - 52\<rparr> = ''g''"
  by (simp_all add: in_unit_interval_def is_double_def double_value_def random_char_def
    double_times_def double_round_def double_of_nat_def round_half_even_def Let_def
    bit_length.simps double_floor_def charAt_def RANDOM_STRING_CHARS_def)

subsection \<open>The random string\<close>

lemma loop_world: "snd (generateRandomString_loop P n acc w) = w\<lparr>draws := draws w + n\<rparr>"
  by (induction n arbitrary: acc w) simp_all

lemma loop_only_draws:
  "draws w = draws w' \<Longrightarrow>
   fst (generateRandomString_loop P n acc w) = fst (generateRandomString_loop P n acc w')"
  by (induction n arbitrary: acc w w') simp_all

lemma loop_chars:
  assumes "\<forall>i. in_unit_interval (math_random P i)"
  shows "length (fst (generateRandomString_loop P n acc w)) = length acc + n \<and>
    set (fst (generateRandomString_loop P n acc w)) \<subseteq> set acc \<union> set RANDOM_STRING_CHARS"
proof (induction n arbitrary: acc w)
  case 0
  show ?case by simp
next
  case (Suc n)
  obtain c where c: "random_char (math_random P (draws w)) = [c]"
    "c \<in> set RANDOM_STRING_CHARS"
    using random_char_in_alphabet [of "math_random P (draws w)"] assms by blast
  show ?case
    using Suc [of "acc @ [c]" "w\<lparr>draws := Suc (draws w)\<rparr>"] c
    by auto
qed

subsection \<open>What the patterns capture\<close>

lemma match_here_Lit:
  "match_here (Lit c # p) s g cap = Some r \<longleftrightarrow>
   (\<exists>xs. s = c # xs \<and> match_here p xs g (if g then cap @ [c] else cap) = Some r)"
  by (cases s) auto

lemma match_here_Plus:
  "match_here (Plus k # p) s g cap = Some r \<longleftrightarrow>
   (\<exists>x xs. s = x # xs \<and> class_mem k x \<and>
      match_here (Star k # p) xs g (if g then cap @ [x] else cap) = Some r)"
  by (cases s) auto

lemma match_here_extends:
  "GroupOpen \<notin> set p \<Longrightarrow> match_here p s g cap = Some r \<Longrightarrow> \<exists>ext. r = cap @ ext"
proof (induction p s g cap rule: match_here.induct)
  case (5 k p x xs g cap)
  then show ?case by (auto split: if_splits option.splits)
qed (auto split: if_splits)

lemma match_here_Star:
  "match_here (Star k # p) s g cap = Some r \<Longrightarrow>
   \<exists>s' cap'. match_here p s' g cap' = Some r"
proof (induction s arbitrary: cap)
  case Nil
  then show ?case by auto
next
  case (Cons x xs)
  then show ?case by (auto split: if_splits option.splits)
qed

lemma search_Some: "search p s = Some r \<Longrightarrow> \<exists>s'. match_here p s' False [] = Some r"
  by (induction s) (auto split: option.splits)

lemma token_nonempty: "extractData TOKEN_PATTERN content = Some token \<Longrightarrow> token \<noteq> []"
proof -
  assume "extractData TOKEN_PATTERN content = Some token"
  then obtain s where "match_here TOKEN_PATTERN s False [] = Some token"
    unfolding extractData_def by (blast dest: search_Some)
  then obtain x xs k where m: "match_here [Star k, GroupClose] xs True [x] = Some token"
    by (auto simp add: TOKEN_PATTERN_def match_here_Lit match_here_Plus)
  show ?thesis
    using match_here_extends [OF _ m] by auto
qed

lemma pass_md5_nonempty: "extractData PASS_MD5_PATTERN content = Some frag \<Longrightarrow> frag \<noteq> []"
proof -
  assume "extractData PASS_MD5_PATTERN content = Some frag"
  then obtain s where "match_here PASS_MD5_PATTERN s False [] = Some frag"
    unfolding extractData_def by (blast dest: search_Some)
  then obtain s1 where
    "match_here (Star (NoneOf [quote]) # map Lit ''/pass_md5/'' @ [Star (NoneOf [quote]), GroupClose, Lit quote]) s1 True [] = Some frag"
    by (auto simp add: PASS_MD5_PATTERN_def match_here_Lit)
  then obtain s2 cap where
    "match_here (map Lit ''/pass_md5/'' @ [Star (NoneOf [quote]), GroupClose, Lit quote]) s2 True cap = Some frag"
    by (blast dest: match_here_Star)
  then obtain s3 where
    m: "match_here [Star (NoneOf [quote]), GroupClose, Lit quote] s3 True (cap @ ''/pass_md5/'') = Some frag"
    by (auto simp add: match_here_Lit)
  show ?thesis
    using match_here_extends [OF _ m] by auto
qed

lemma match_here_Star_class:
  "match_here [Star k, GroupClose] s True cap = Some r \<Longrightarrow>
   \<exists>ext. r = cap @ ext \<and> (\<forall>c\<in>set ext. class_mem k c)"
proof (induction s arbitrary: cap)
  case Nil
  then show ?case by simp
next
  case (Cons x xs)
  show ?case
  proof (cases "class_mem k x")
    case True
    show ?thesis
    proof (cases "match_here [Star k, GroupClose] xs True (cap @ [x])")
      case None
      with Cons.prems True show ?thesis by simp
    next
      case (Some r')
      with Cons.prems True have "r' = r" by simp
      with Some Cons.IH [of "cap @ [x]"] obtain ext where
        "r = (cap @ [x]) @ ext" "\<forall>c\<in>set ext. class_mem k c"
        by blast
      with True have "r = cap @ (x # ext) \<and> (\<forall>c\<in>set (x # ext). class_mem k c)" by simp
      then show ?thesis by blast
    qed
  next
    case False
    with Cons.prems show ?thesis by simp
  qed
qed

lemma token_alphanumeric:
  assumes "extractData TOKEN_PATTERN content = Some token"
  shows "\<forall>c\<in>set token.
    class_mem (Ranges [(CHR ''a'', CHR ''z''), (CHR ''A'', CHR ''Z''), (CHR ''0'', CHR ''9'')]) c"
proof -
  let ?k = "Ranges [(CHR ''a'', CHR ''z''), (CHR ''A'', CHR ''Z''), (CHR ''0'', CHR ''9'')]"
  from assms obtain s where "match_here TOKEN_PATTERN s False [] = Some token"
    unfolding extractData_def by (blast dest: search_Some)
  then obtain x xs where x: "class_mem ?k x"
    and m: "match_here [Star ?k, GroupClose] xs True [x] = Some token"
    by (auto simp add: TOKEN_PATTERN_def match_here_Lit match_here_Plus)
  from match_here_Star_class [OF m] obtain ext where
    "token = [x] @ ext" "\<forall>c\<in>set ext. class_mem ?k c" by blast
  with x show ?thesis by simp
qed

lemma requests_emit [simp]:
  "requests_of (events (emit (Fetch u h) w)) = requests_of (events w) @ [(u, h)]"
  "requests_of (events (emit (SetTimeout t ms) w)) = requests_of (events w)"
  "requests_of (events (emit (ClearTimeout t) w)) = requests_of (events w)"
  "requests_of (events (emit (TimerFired t) w)) = requests_of (events w)"
  "requests_of (events (emit (ConsoleLog m) w)) = requests_of (events w)"
  "requests_of (events (emit (ConsoleError m e) w)) = requests_of (events w)"
  by simp_all

lemma log_and_rethrow_fst [simp]: "fst (log_and_rethrow msg rw) = fst rw"
  by (cases rw; cases "fst rw") (simp_all add: log_and_rethrow_def)

lemma log_and_rethrow_frame [simp]:
  "requests_of (events (snd (log_and_rethrow msg rw))) = requests_of (events (snd rw))"
  "fetch_count (snd (log_and_rethrow msg rw)) = fetch_count (snd rw)"
  "draws (snd (log_and_rethrow msg rw)) = draws (snd rw)"
  "clock_reads (snd (log_and_rethrow msg rw)) = clock_reads (snd rw)"
  "timers (snd (log_and_rethrow msg rw)) = timers (snd rw)"
  by (cases rw; cases "fst rw"; simp add: log_and_rethrow_def console_error_def)+

subsection \<open>The steps of the pipeline: results and effects\<close>

lemma makeRequest_fst:
  "fst (makeRequest P url hs w) =
     (case fetch P (fetch_count w) url hs of
        Resolves r \<Rightarrow>
          if ok r then Inr r
          else Inl (Error (''HTTP error! status: '' @ number_to_string (int (status r))))
      | Rejects e \<Rightarrow> Inl e
      | TimesOut \<Rightarrow> Inl AbortError)"
  by (simp add: makeRequest_def makeRequest_try_def setTimeout_def Let_def
    split: fetch_outcome.splits)

lemma makeRequest_try_frame:
  "requests_of (events (snd (makeRequest_try P url hs w))) = requests_of (events w) @ [(url, hs)]"
  "fetch_count (snd (makeRequest_try P url hs w)) = Suc (fetch_count w)"
  "draws (snd (makeRequest_try P url hs w)) = draws w"
  "clock_reads (snd (makeRequest_try P url hs w)) = clock_reads w"
  by (simp_all add: makeRequest_try_def setTimeout_def clearTimeout_def timer_fires_def Let_def
    split: fetch_outcome.splits)

lemma makeRequest_frame [simp]:
  "requests_of (events (snd (makeRequest P url hs w))) = requests_of (events w) @ [(url, hs)]"
  "fetch_count (snd (makeRequest P url hs w)) = Suc (fetch_count w)"
  "draws (snd (makeRequest P url hs w)) = draws w"
  "clock_reads (snd (makeRequest P url hs w)) = clock_reads w"
  by (simp_all add: makeRequest_def makeRequest_try_frame)

lemma makeRequest_events:
  assumes "fetch P (fetch_count w) url hs = Resolves r" "ok r"
  shows "events (snd (makeRequest P url hs w)) =
    events w @ [SetTimeout (timer_count w) DEFAULT_REQUEST_TIMEOUT, Fetch url hs,
                ClearTimeout (timer_count w)]"
    and "timer_count (snd (makeRequest P url hs w)) = Suc (timer_count w)"
  using assms
  by (simp_all add: makeRequest_def makeRequest_try_def setTimeout_def Let_def world_ops)

lemma extractPassMd5Url_fst:
  "fst (extractPassMd5Url P content url w) =
     (case extractData PASS_MD5_PATTERN content of
        None \<Rightarrow> Inl (Error (''pass_md5 URL not found in '' @ url))
      | Some frag \<Rightarrow> fullUrl P frag)"
  using pass_md5_nonempty [of content]
  by (auto simp add: extractPassMd5Url_def split: option.splits sum.splits)

lemma extractPassMd5Url_frame [simp]:
  "requests_of (events (snd (extractPassMd5Url P content url w))) = requests_of (events w)"
  "fetch_count (snd (extractPassMd5Url P content url w)) = fetch_count w"
  "draws (snd (extractPassMd5Url P content url w)) = draws w"
  "clock_reads (snd (extractPassMd5Url P content url w)) = clock_reads w"
  by (simp_all add: extractPassMd5Url_def console_log_def split: option.splits sum.splits)

lemma extractToken_fst:
  "fst (extractToken content url w) =
     (case extractData TOKEN_PATTERN content of
        None \<Rightarrow> Inl (Error (''Token not found in '' @ url))
      | Some token \<Rightarrow> Inr token)"
  using token_nonempty [of content]
  by (auto simp add: extractToken_def split: option.splits)

lemma extractToken_frame [simp]:
  "requests_of (events (snd (extractToken content url w))) = requests_of (events w)"
  "fetch_count (snd (extractToken content url w)) = fetch_count w"
  "draws (snd (extractToken content url w)) = draws w"
  "clock_reads (snd (extractToken content url w)) = clock_reads w"
  by (simp_all add: extractToken_def console_log_def split: option.splits)

lemma getVideoBaseUrl_fst:
  "fst (getVideoBaseUrl P url hs w) =
     (case fst (makeRequest P url hs w) of
        Inl e \<Rightarrow> Inl e
      | Inr r \<Rightarrow>
          (case text_result r of
             Inl e \<Rightarrow> Inl e
           | Inr t \<Rightarrow> if trim t = [] then Inl (Error ''Empty video base URL received'')
                      else Inr (trim t)))"
  by (simp add: getVideoBaseUrl_def getVideoBaseUrl_try_def Let_def case_prod_beta
    split: sum.splits)

lemma getVideoBaseUrl_frame [simp]:
  "requests_of (events (snd (getVideoBaseUrl P url hs w))) = requests_of (events w) @ [(url, hs)]"
  "fetch_count (snd (getVideoBaseUrl P url hs w)) = Suc (fetch_count w)"
  "draws (snd (getVideoBaseUrl P url hs w)) = draws w"
  "clock_reads (snd (getVideoBaseUrl P url hs w)) = clock_reads w"
  by (simp_all add: getVideoBaseUrl_def getVideoBaseUrl_try_def Let_def case_prod_beta
    console_log_def split: sum.splits)

lemma generateRandomString_fst: "fst (generateRandomString P n w) = suffix_at P n (draws w)"
  unfolding suffix_at_def generateRandomString_def
  by (rule loop_only_draws) simp

lemma generateRandomString_snd: "snd (generateRandomString P n w) = w\<lparr>draws := draws w + n\<rparr>"
  unfolding generateRandomString_def by (rule loop_world)

lemma buildDirectLink_fst:
  "fst (buildDirectLink P b t w) =
   b @ suffix_at P 10 (draws w) @ ''?token='' @ t @ ''&expiry='' @
   number_to_string (date_now P (clock_reads w) div 1000)"
  by (simp add: buildDirectLink_def case_prod_beta generateRandomString_fst
    generateRandomString_snd Let_def)

lemma buildDirectLink_frame [simp]:
  "requests_of (events (snd (buildDirectLink P b t w))) = requests_of (events w)"
  "fetch_count (snd (buildDirectLink P b t w)) = fetch_count w"
  "draws (snd (buildDirectLink P b t w)) = draws w + 10"
  "clock_reads (snd (buildDirectLink P b t w)) = Suc (clock_reads w)"
  by (simp_all add: buildDirectLink_def case_prod_beta generateRandomString_snd Let_def
    console_log_def)

lemma console_log_frame [simp]:
  "requests_of (events (console_log m w)) = requests_of (events w)"
  "fetch_count (console_log m w) = fetch_count w"
  "draws (console_log m w) = draws w"
  "clock_reads (console_log m w) = clock_reads w"
  by (simp_all add: console_log_def)

lemmas step_results = makeRequest_fst extractPassMd5Url_fst extractToken_fst getVideoBaseUrl_fst
  buildDirectLink_fst

lemma getDirectLink_nonempty:
  "url \<noteq> [] \<Longrightarrow>
   fst (getDirectLink P (Some url) w) =
   fst (getDirectLink_try P url
     (console_log (''Extracting direct link from Doodstream: '' @ url) w))"
  "url \<noteq> [] \<Longrightarrow>
   requests_of (events (snd (getDirectLink P (Some url) w))) =
   requests_of (events (snd (getDirectLink_try P url
     (console_log (''Extracting direct link from Doodstream: '' @ url) w))))"
  "url \<noteq> [] \<Longrightarrow>
   draws (snd (getDirectLink P (Some url) w)) =
   draws (snd (getDirectLink_try P url
     (console_log (''Extracting direct link from Doodstream: '' @ url) w)))"
  "url \<noteq> [] \<Longrightarrow>
   clock_reads (snd (getDirectLink P (Some url) w)) =
   clock_reads (snd (getDirectLink_try P url
     (console_log (''Extracting direct link from Doodstream: '' @ url) w)))"
  by (simp_all add: getDirectLink_def)

subsection \<open>The whole pipeline\<close>

lemmas pipeline_simps = getDirectLink_nonempty getDirectLink_try_def case_prod_beta Let_def
  step_results

lemma getDirectLink_success:
  assumes "url \<noteq> []"
    and "serves P (fetch_count w) url content"
    and "extractData PASS_MD5_PATTERN content = Some frag"
    and "fullUrl P frag = Inr passMd5Url"
    and "extractData TOKEN_PATTERN content = Some token"
    and "serves P (Suc (fetch_count w)) passMd5Url body"
    and "trim body \<noteq> []"
  shows "fst (getDirectLink P (Some url) w) =
      Inr (trim body @ fst (generateRandomString P 10 w) @ ''?token='' @ token @ ''&expiry='' @
        number_to_string (date_now P (clock_reads w) div 1000))"
    and "requests_of (events (snd (getDirectLink P (Some url) w))) =
      requests_of (events w) @ [(url, getHeaders), (passMd5Url, getHeaders)]"
    and "draws (snd (getDirectLink P (Some url) w)) = draws w + 10"
    and "clock_reads (snd (getDirectLink P (Some url) w)) = Suc (clock_reads w)"
  using assms
  by (auto simp add: serves_def pipeline_simps generateRandomString_fst)

lemma getDirectLink_success_count:
  assumes "url \<noteq> []"
    and "serves P (fetch_count w) url content"
    and "extractData PASS_MD5_PATTERN content = Some frag"
    and "fullUrl P frag = Inr passMd5Url"
    and "extractData TOKEN_PATTERN content = Some token"
    and "serves P (Suc (fetch_count w)) passMd5Url body"
    and "trim body \<noteq> []"
  shows "fetch_count (snd (getDirectLink P (Some url) w)) = Suc (Suc (fetch_count w))"
  using getDirectLink_success(2) [OF assms] by (simp add: fetch_count_def)

lemma getDirectLink_blank_events:
  assumes "url \<noteq> []"
    and "serves P (fetch_count w) url content"
    and "extractData PASS_MD5_PATTERN content = Some frag"
    and "fullUrl P frag = Inr passMd5Url"
    and "extractData TOKEN_PATTERN content = Some token"
    and "serves P (Suc (fetch_count w)) passMd5Url body"
    and "trim body = []"
  shows "events (snd (getDirectLink P (Some url) w)) =
    events w @
    [ConsoleLog (''Extracting direct link from Doodstream: '' @ url),
     ConsoleLog ''Fetching embed page content...'',
     SetTimeout (timer_count w) DEFAULT_REQUEST_TIMEOUT,
     Fetch url getHeaders,
     ClearTimeout (timer_count w),
     ConsoleLog (''Extracted pass_md5 URL: '' @ passMd5Url),
     ConsoleLog (''Extracted token: '' @ token),
     SetTimeout (Suc (timer_count w)) DEFAULT_REQUEST_TIMEOUT,
     Fetch passMd5Url getHeaders,
     ClearTimeout (Suc (timer_count w)),
     ConsoleError (''Failed to get video base URL from '' @ passMd5Url @ '':'')
       (Error ''Empty video base URL received''),
     ConsoleError ''Failed to extract direct link from Doodstream:''
       (Error ''Empty video base URL received'')]"
proof -
  from assms(2) obtain r1 where r1: "fetch P (fetch_count w) url getHeaders = Resolves r1"
    "ok r1" "text_result r1 = Inr content" unfolding serves_def by blast
  from assms(6) obtain r2 where r2: "fetch P (Suc (fetch_count w)) passMd5Url getHeaders = Resolves r2"
    "ok r2" "text_result r2 = Inr body" unfolding serves_def by blast
  have frag: "frag \<noteq> []" using assms(3) by (rule pass_md5_nonempty)
  have token: "token \<noteq> []" using assms(5) by (rule token_nonempty)
  let ?w0 = "console_log ''Fetching embed page content...''
    (console_log (''Extracting direct link from Doodstream: '' @ url) w)"
  have m1: "fst (makeRequest P url getHeaders ?w0) = Inr r1"
    using r1 by (simp add: makeRequest_fst)
  let ?w1 = "snd (makeRequest P url getHeaders ?w0)"
  have e1: "events ?w1 = events ?w0 @ [SetTimeout (timer_count w) DEFAULT_REQUEST_TIMEOUT,
      Fetch url getHeaders, ClearTimeout (timer_count w)]"
    "timer_count ?w1 = Suc (timer_count w)"
    using makeRequest_events [of P ?w0 url getHeaders r1] r1 by (simp_all add: console_log_def)
  show ?thesis
    using assms(1) r1 r2 frag token assms(3,4,5,7) m1 e1
    apply (simp add: getDirectLink_def getDirectLink_try_def case_prod_beta Let_def
      log_and_rethrow_def console_error_def)
    apply (simp add: extractPassMd5Url_def extractToken_def console_log_def getVideoBaseUrl_def
      getVideoBaseUrl_try_def case_prod_beta makeRequest_fst log_and_rethrow_def
      console_error_def makeRequest_events)
    done
qed

lemma random_string_chars:
  assumes "\<forall>n. in_unit_interval (math_random P n)"
  shows "length (fst (generateRandomString P 10 w)) = 10"
    and "set (fst (generateRandomString P 10 w)) \<subseteq> set RANDOM_STRING_CHARS"
  using loop_chars [OF assms, of 10 "[]" w] by (simp_all add: generateRandomString_def)

lemma alphabet: "length RANDOM_STRING_CHARS = 62 \<and> distinct RANDOM_STRING_CHARS \<and>
  list_all (class_mem (Ranges [(CHR ''a'', CHR ''z''), (CHR ''A'', CHR ''Z''), (CHR ''0'', CHR ''9'')]))
    RANDOM_STRING_CHARS"
  by (simp add: RANDOM_STRING_CHARS_def)

lemma split_no_sep: "sep \<notin> set s \<Longrightarrow> split sep s = [s]"
  by (induction s) auto

lemma split_with_sep: "sep \<in> set s \<Longrightarrow> \<exists>p q qs. split sep s = p # q # qs"
proof (induction s)
  case Nil
  then show ?case by simp
next
  case (Cons c cs)
  show ?case
  proof (cases "sep \<in> set cs")
    case True
    with Cons.IH obtain p q qs where "split sep cs = p # q # qs" by blast
    then show ?thesis by simp
  next
    case False
    with Cons.prems have "c = sep" by simp
    with False show ?thesis by (simp add: split_no_sep)
  qed
qed

lemma last_split: "last (split sep s) = rev (takeWhile (\<lambda>c. c \<noteq> sep) (rev s))"
proof (induction s)
  case Nil
  show ?case by simp
next
  case (Cons c cs)
  show ?case
  proof (cases "sep \<in> set cs")
    case True
    then obtain p q qs where "split sep cs = p # q # qs"
      using split_with_sep by blast
    with Cons True show ?thesis by (auto simp add: takeWhile_append)
  next
    case False
    then show ?thesis by (simp add: split_no_sep takeWhile_append)
  qed
qed

subsection \<open>The sample platform\<close>

lemma sample_fetch:
  "fetch (sample_platform net) n url hs =
     (case map_of net url of
        Some outcome \<Rightarrow> outcome
      | None \<Rightarrow> Rejects (TypeError ''Failed to fetch''))"
  by (simp add: sample_platform_def)

lemma sample_world:
  "fetch_count initial_world = 0" "draws initial_world = 0" "clock_reads initial_world = 0"
  "events initial_world = []" "timers initial_world = []" "timer_count initial_world = 0"
  by (simp_all add: fetch_count_def initial_world_def)

lemma sample_embed_nonempty: "sample_embed \<noteq> []"
  by (simp add: sample_embed_def)

lemma sample_serves_embed: "serves (sample_platform (network url page md5)) n url page"
  by (simp add: serves_def sample_fetch network_def ok_response_def ok_def)

lemma sample_serves_md5:
  "url \<noteq> ''https://dood.li/pass_md5/xyz'' \<Longrightarrow>
   serves (sample_platform (network url page (ok_response body))) n
     ''https://dood.li/pass_md5/xyz'' body"
  by (simp add: serves_def sample_fetch network_def ok_response_def ok_def)

lemma sample_embed_not_md5: "sample_embed \<noteq> ''https://dood.li/pass_md5/xyz''"
  by (simp add: sample_embed_def)

lemma sample_pass_md5:
  "extractData PASS_MD5_PATTERN (sample_page ''/pass_md5/xyz'' rest) = Some ''/pass_md5/xyz''"
  by (simp add: extractData_def PASS_MD5_PATTERN_def sample_page_def quote_def)

lemma sample_token:
  "extractData TOKEN_PATTERN (sample_page ''/pass_md5/xyz'' ''?token=abc123&expiry='') =
     Some ''abc123''"
  by (simp add: extractData_def TOKEN_PATTERN_def sample_page_def quote_def)

lemma sample_no_token:
  "extractData TOKEN_PATTERN (sample_page ''/pass_md5/xyz'' []) = None"
  by (simp add: extractData_def TOKEN_PATTERN_def sample_page_def quote_def)

lemma sample_fullUrl:
  "fullUrl (sample_platform net) ''/pass_md5/xyz'' = Inr ''https://dood.li/pass_md5/xyz''"
  by (simp add: fullUrl_def startsWith_def sample_platform_def sample_href_def
    DOODSTREAM_BASE_URL_def)

lemma sample_trim: "trim '' https://cdn.example/v/ '' = ''https://cdn.example/v/''"
  by (simp add: trim_def is_whitespace_def)

lemma sample_draws_small: "sample_draws ! (n mod 10) < 64"
proof -
  have "n mod 10 < length sample_draws" by (simp add: sample_draws_def)
  then have "sample_draws ! (n mod 10) \<in> set sample_draws" by (rule nth_mem)
  then show ?thesis by (auto simp add: sample_draws_def)
qed

lemma small_sixty_fourths:
  assumes "m < 64"
  shows "in_unit_interval \<lparr>mantissa = m, exponent = - 6\<rparr>"
proof -
  from assms have "m < 2 ^ 6" by simp
  then have "bit_length m \<le> 6" by (rule bit_length_le)
  with assms show ?thesis
    by (simp add: in_unit_interval_def is_double_def double_value_def)
qed

lemma sample_random: "\<forall>n. in_unit_interval (math_random (sample_platform net) n)"
  by (simp add: sample_platform_def small_sixty_fourths sample_draws_small)

lemma sample_clock: "0 \<le> date_now (sample_platform net) n"
  by (simp add: sample_platform_def)

lemma loop_numeral:
  "generateRandomString_loop P (numeral k) result w =
     generateRandomString_loop P (pred_numeral k)
       (result @ random_char (math_random P (draws w)))
       (w\<lparr>draws := Suc (draws w)\<rparr>)"
  by (simp add: numeral_eq_Suc)

lemmas random_char_eval = random_char_def double_times_def double_round_def double_of_nat_def
  round_half_even_def Let_def bit_length.simps double_floor_def charAt_def
  RANDOM_STRING_CHARS_def

lemma sample_suffix: "suffix_at (sample_platform net) 10 0 = ''AGMSYflrx3''"
  by (simp add: suffix_at_def generateRandomString_def loop_numeral sample_platform_def
    sample_draws_def random_char_eval)

lemma sample_suffix_again: "suffix_at (sample_platform net) 10 10 = ''AGMSYflrx3''"
  by (simp add: suffix_at_def generateRandomString_def loop_numeral sample_platform_def
    sample_draws_def random_char_eval)

lemma sample_expiry:
  "number_to_string (date_now (sample_platform net) 0 div 1000) = ''1700000000''"
  "number_to_string (date_now (sample_platform net) (Suc 0) div 1000) = ''1700000000''"
  by (simp_all add: sample_platform_def number_to_string_def digit_char_def)

lemmas sample_success =
  sample_embed_nonempty sample_serves_embed sample_pass_md5 sample_fullUrl sample_token
  sample_serves_md5 [OF sample_embed_not_md5]

lemma sample_bad_fragment:
  "extractData PASS_MD5_PATTERN (sample_page ''//h:99999/pass_md5/x'' []) =
     Some ''//h:99999/pass_md5/x''"
  "extractData TOKEN_PATTERN (sample_page ''//h:99999/pass_md5/x'' []) = None"
  "fullUrl (sample_platform net) ''//h:99999/pass_md5/x'' = Inl (TypeError ''Invalid URL'')"
  by (simp_all add: extractData_def PASS_MD5_PATTERN_def TOKEN_PATTERN_def sample_page_def
    quote_def fullUrl_def startsWith_def sample_platform_def sample_href_def
    DOODSTREAM_BASE_URL_def)

lemma sample_blank: "trim ([CHR 0x20, CHR 0x09, CHR 0x0A]) = []"
  by (simp add: trim_def is_whitespace_def)

lemma sample_startsWith:
  "\<not> startsWith ''/pass_md5/xyz'' ''http''"
  "startsWith ''https://cdn.example/pass_md5/xyz'' ''http''"
  "\<not> startsWith ''//cdn.example/pass_md5/xyz'' ''http''"
  "\<not> startsWith ''//h:99999/pass_md5/x'' ''http''"
  by (simp_all add: startsWith_def)

lemma sample_href_facts:
  "url_href (sample_platform net) ''//cdn.example/pass_md5/xyz'' DOODSTREAM_BASE_URL =
     Inr ''https://cdn.example/pass_md5/xyz''"
  "url_href (sample_platform net) ''//h:99999/pass_md5/x'' DOODSTREAM_BASE_URL =
     Inl (TypeError ''Invalid URL'')"
  by (simp_all add: sample_platform_def sample_href_def DOODSTREAM_BASE_URL_def)

lemma sample_kinds:
  "relative_in_origin ''/pass_md5/xyz''"
  "network_path (url_preprocess ''//cdn.example/pass_md5/xyz'')"
  "has_scheme (url_preprocess ''https://cdn.example/pass_md5/xyz'')"
  "\<not> has_scheme (url_preprocess ''//cdn.example/pass_md5/xyz'')"
  by (simp_all add: relative_in_origin_def url_preprocess_def is_c0_or_space_def
    is_tab_or_newline_def has_scheme_def is_alpha_def is_scheme_char_def network_path_def
    is_slash_def)

lemma origin_platform_facts:
  "serves (origin_platform net) n url txt = serves (sample_platform net) n url txt"
  "url_href (origin_platform net) = origin_parser"
  by (simp_all add: origin_platform_def serves_def)

lemma origin_platform_standard: "standard_parser (origin_platform net)"
  by (simp add: standard_parser_def origin_platform_def origin_parser_def)

lemma origin_parser_sample:
  "origin_parser ''/pass_md5/xyz'' ''https://dood.li'' = Inr ''https://dood.li/pass_md5/xyz''"
  by (simp add: origin_parser_def relative_in_origin_def url_preprocess_def is_c0_or_space_def
    is_tab_or_newline_def has_scheme_def is_alpha_def is_scheme_char_def network_path_def
    is_slash_def)

lemma sample_bad_fragment_token:
  "extractData PASS_MD5_PATTERN (sample_page ''//h:99999/pass_md5/x'' rest) =
     Some ''//h:99999/pass_md5/x''"
  "extractData TOKEN_PATTERN (sample_page ''//h:99999/pass_md5/x'' ''?token=abc123&expiry='') =
     Some ''abc123''"
  by (simp_all add: extractData_def PASS_MD5_PATTERN_def TOKEN_PATTERN_def sample_page_def
    quote_def)

lemma sample_absolute_fragment:
  "extractData PASS_MD5_PATTERN (sample_page ''https://cdn.example/pass_md5/xyz'' rest) =
     Some ''https://cdn.example/pass_md5/xyz''"
  "extractData TOKEN_PATTERN
     (sample_page ''https://cdn.example/pass_md5/xyz'' ''?token=abc123&expiry='') = Some ''abc123''"
  by (simp_all add: extractData_def PASS_MD5_PATTERN_def TOKEN_PATTERN_def sample_page_def
    quote_def)

lemma sample_network_path_fragment:
  "extractData PASS_MD5_PATTERN (sample_page ''//cdn.example/pass_md5/xyz'' rest) =
     Some ''//cdn.example/pass_md5/xyz''"
  "extractData TOKEN_PATTERN
     (sample_page ''//cdn.example/pass_md5/xyz'' ''?token=abc123&expiry='') = Some ''abc123''"
  "fullUrl (sample_platform net) ''//cdn.example/pass_md5/xyz'' =
     Inr ''https://cdn.example/pass_md5/xyz''"
  by (simp_all add: extractData_def PASS_MD5_PATTERN_def TOKEN_PATTERN_def sample_page_def
    quote_def fullUrl_def startsWith_def sample_platform_def sample_href_def
    DOODSTREAM_BASE_URL_def)

lemma sample_pathname_facts:
  "url_pathname (sample_platform net) sample_embed = Inr ''/e/abc123''"
  "url_pathname (sample_platform net) ''https://dood.li/e/abc123/'' = Inr ''/e/abc123/''"
  by (simp_all add: sample_platform_def sample_pathname_def sample_embed_def)

lemma sample_link:
  "fst (getDirectLink (sample_platform sample_net) (Some sample_embed) initial_world) =
     Inr ''https://cdn.example/v/AGMSYflrx3?token=abc123&expiry=1700000000''"
  using getDirectLink_success(1) [of sample_embed "sample_platform sample_net" initial_world
      sample_content "''/pass_md5/xyz''" "''https://dood.li/pass_md5/xyz''" "''abc123''"
      "'' https://cdn.example/v/ ''"]
  by (simp add: sample_net_def sample_content_def sample_world sample_success sample_trim
    generateRandomString_fst sample_suffix sample_expiry)

lemma sample_trailing_page:
  "serves (sample_platform (network ''https://dood.li/e/abc123/'' page md5)) n
     ''https://dood.li/e/abc123/'' page"
  "serves (sample_platform (network ''https://dood.li/e/abc123/'' page (ok_response body))) n
     ''https://dood.li/pass_md5/xyz'' body"
  by (simp_all add: serves_def sample_fetch network_def ok_response_def ok_def)

lemma sample_second_run:
  "fetch_count (snd (getDirectLink (sample_platform sample_net) (Some sample_embed)
     initial_world)) = Suc (Suc 0)"
  "draws (snd (getDirectLink (sample_platform sample_net) (Some sample_embed)
     initial_world)) = 10"
  "clock_reads (snd (getDirectLink (sample_platform sample_net) (Some sample_embed)
     initial_world)) = Suc 0"
  using
    getDirectLink_success_count [of sample_embed "sample_platform sample_net" initial_world
      sample_content "''/pass_md5/xyz''" "''https://dood.li/pass_md5/xyz''" "''abc123''"
      "'' https://cdn.example/v/ ''"]
    getDirectLink_success(3,4) [of sample_embed "sample_platform sample_net" initial_world
      sample_content "''/pass_md5/xyz''" "''https://dood.li/pass_md5/xyz''" "''abc123''"
      "'' https://cdn.example/v/ ''"]
  by (simp_all add: sample_net_def sample_content_def sample_world sample_success sample_trim)

lemma spread_facts:
  "serves (spread_random P) n url txt = serves P n url txt"
  "fullUrl (spread_random P) frag = fullUrl P frag"
  "date_now (spread_random P) = date_now P"
  by (simp_all add: spread_random_def serves_def fullUrl_def)

lemma spread_in_unit_interval: "\<forall>n. in_unit_interval (math_random (spread_random P) n)"
proof
  fix n :: nat
  have "n mod 32 < 2 ^ 5" by simp
  then have "bit_length (n mod 32) \<le> 5" by (rule bit_length_le)
  then show "in_unit_interval (math_random (spread_random P) n)"
    by (simp add: spread_random_def in_unit_interval_def is_double_def double_value_def)
qed

lemma spread_suffix:
  "suffix_at (spread_random P) 10 0 = ''ABDFHJLNPR''"
  "suffix_at (spread_random P) 10 10 = ''TVXZbdfgik''"
  by (simp_all add: suffix_at_def generateRandomString_def loop_numeral spread_random_def
    random_char_eval)

lemma spread_second_run:
  "fetch_count (snd (getDirectLink (spread_random (sample_platform sample_net))
     (Some sample_embed) initial_world)) = Suc (Suc 0)"
  "draws (snd (getDirectLink (spread_random (sample_platform sample_net))
     (Some sample_embed) initial_world)) = 10"
  "clock_reads (snd (getDirectLink (spread_random (sample_platform sample_net))
     (Some sample_embed) initial_world)) = Suc 0"
  using
    getDirectLink_success_count [of sample_embed "spread_random (sample_platform sample_net)"
      initial_world sample_content "''/pass_md5/xyz''" "''https://dood.li/pass_md5/xyz''"
      "''abc123''" "'' https://cdn.example/v/ ''"]
    getDirectLink_success(3,4) [of sample_embed "spread_random (sample_platform sample_net)"
      initial_world sample_content "''/pass_md5/xyz''" "''https://dood.li/pass_md5/xyz''"
      "''abc123''" "'' https://cdn.example/v/ ''"]
  by (simp_all add: spread_facts sample_net_def sample_content_def sample_world sample_success
    sample_trim)

lemma sample_status:
  "\<not> ok \<lparr>status = 404, text_result = Inr []\<rparr>"
  "number_to_string 404 = ''404''"
  by (simp_all add: ok_def number_to_string_def digit_char_def)

lemma sample_fetch_status:
  "fetch (sample_platform [(url, status_response st)]) n url hs =
     Resolves \<lparr>status = st, text_result = Inr []\<rparr>"
  "url \<noteq> ''https://dood.li/pass_md5/xyz'' \<Longrightarrow>
   fetch (sample_platform (network url page (status_response st))) n
     ''https://dood.li/pass_md5/xyz'' hs = Resolves \<lparr>status = st, text_result = Inr []\<rparr>"
  by (simp_all add: sample_fetch network_def status_response_def)

lemma sample_plain:
  "extractData PASS_MD5_PATTERN ''<html>pass_md5 token</html>'' = None"
  "extractData TOKEN_PATTERN ''<html>pass_md5 token</html>'' = None"
  by (simp_all add: extractData_def PASS_MD5_PATTERN_def TOKEN_PATTERN_def quote_def)


section \<open>The properties\<close>

text \<open>
  C1. When the embed URL is not empty, the embed page is fetched and matches both patterns,
  the pass_md5 URL is obtained from the captured fragment, and the pass_md5 endpoint
  answers with a body that is not blank, \<open>getDirectLink\<close> returns the trimmed body
  followed by the random string, \<open>?token=\<close>, the captured token, \<open>&expiry=\<close> and the
  current time in whole seconds. The random string has 10 characters of
  \<open>RANDOM_STRING_CHARS\<close> (62 letters and digits, see \<open>alphabet\<close>), and the expiry is a
  string of decimal digits; the token consists of letters and digits as well
  (\<open>token_alphanumeric\<close>). The random string is written as the one generated in the
  world of the call: the steps before the link builder draw no random value, and each of
  its characters is the one at the floor of the double product of the random value and 62
  (\<open>random_char\<close>; the rounding of the product can decide it, see
  \<open>rounded_product_example\<close>). The platform is assumed to keep its contract:
  \<open>Math.random()\<close> is a double that is at least 0 and less than 1, and \<open>Date.now()\<close> is
  not negative.
\<close>

theorem direct_link_format:
  assumes "url \<noteq> []"
    and "serves P (fetch_count w) url content"
    and "extractData PASS_MD5_PATTERN content = Some frag"
    and "fullUrl P frag = Inr passMd5Url"
    and "extractData TOKEN_PATTERN content = Some token"
    and "serves P (Suc (fetch_count w)) passMd5Url body"
    and "trim body \<noteq> []"
    and "\<forall>n. in_unit_interval (math_random P n)"
    and "0 \<le> date_now P (clock_reads w)"
  shows "fst (getDirectLink P (Some url) w) =
      Inr (trim body @ fst (generateRandomString P 10 w) @ ''?token='' @ token @ ''&expiry='' @
        number_to_string (date_now P (clock_reads w) div 1000)) \<and>
    length (fst (generateRandomString P 10 w)) = 10 \<and>
    set (fst (generateRandomString P 10 w)) \<subseteq> set RANDOM_STRING_CHARS \<and>
    number_to_string (date_now P (clock_reads w) div 1000) \<noteq> [] \<and>
    set (number_to_string (date_now P (clock_reads w) div 1000)) \<subseteq> set ''0123456789''"
proof -
  have "0 \<le> date_now P (clock_reads w) div 1000"
    using assms(9) by simp
  then have expiry: "number_to_string (date_now P (clock_reads w) div 1000) =
      digits (nat (date_now P (clock_reads w) div 1000))"
    by (simp add: number_to_string_def)
  show ?thesis
    using getDirectLink_success(1) [OF assms(1-7)] random_string_chars [OF assms(8), of w]
      digits_are_digits [of "nat (date_now P (clock_reads w) div 1000)"]
    unfolding expiry by blast
qed

theorem direct_link_format_witness:
  "fst (getDirectLink (sample_platform sample_net) (Some sample_embed) initial_world) =
     Inr ''https://cdn.example/v/AGMSYflrx3?token=abc123&expiry=1700000000''"
  using direct_link_format [of sample_embed "sample_platform sample_net" initial_world
      sample_content "''/pass_md5/xyz''" "''https://dood.li/pass_md5/xyz''" "''abc123''"
      "'' https://cdn.example/v/ ''"]
  by (simp add: sample_net_def sample_content_def sample_world sample_success sample_random
    sample_clock sample_trim generateRandomString_fst sample_suffix sample_expiry)

text \<open>
  C2. On \<open>null\<close>, on \<open>undefined\<close> and on the empty string \<open>getDirectLink\<close> fails with
  the error \<open>Embed URL cannot be empty\<close> (the InvalidInput of the specification) and
  leaves the world as it was: nothing is fetched, and nothing is logged either.
\<close>

theorem empty_input_fails:
  "getDirectLink P None w = (Inl (Error ''Embed URL cannot be empty''), w) \<and>
   getDirectLink P (Some []) w = (Inl (Error ''Embed URL cannot be empty''), w) \<and>
   requests_of (events (snd (getDirectLink P None w))) = requests_of (events w) \<and>
   requests_of (events (snd (getDirectLink P (Some []) w))) = requests_of (events w)"
  by (simp add: getDirectLink_def)

text \<open>
  C3, as amended. When the embed page is fetched, the pass_md5 URL is obtained from the
  captured fragment without an error (the fragment starts with \<open>http\<close>, or the URL parser
  accepts it), and the page does not match the token pattern, \<open>getDirectLink\<close> fails with
  the error \<open>Token not found in\<close> followed by the embed URL, and the only request of the
  call is the one for the embed page.
\<close>

theorem token_missing:
  assumes "url \<noteq> []"
    and "serves P (fetch_count w) url content"
    and "extractData PASS_MD5_PATTERN content = Some frag"
    and "fullUrl P frag = Inr passMd5Url"
    and "extractData TOKEN_PATTERN content = None"
  shows "fst (getDirectLink P (Some url) w) = Inl (Error (''Token not found in '' @ url)) \<and>
    requests_of (events (snd (getDirectLink P (Some url) w))) =
      requests_of (events w) @ [(url, getHeaders)]"
  using assms by (auto simp add: serves_def pipeline_simps)

theorem token_missing_witness:
  "fst (getDirectLink
     (sample_platform (network sample_embed (sample_page ''/pass_md5/xyz'' [])
        (ok_response '' https://cdn.example/v/ '')))
     (Some sample_embed) initial_world) =
     Inl (Error ''Token not found in https://dood.li/e/abc123'') \<and>
   requests_of (events (snd (getDirectLink
     (sample_platform (network sample_embed (sample_page ''/pass_md5/xyz'' [])
        (ok_response '' https://cdn.example/v/ '')))
     (Some sample_embed) initial_world))) = [(sample_embed, getHeaders)]"
  using token_missing [of sample_embed
      "sample_platform (network sample_embed (sample_page ''/pass_md5/xyz'' [])
        (ok_response '' https://cdn.example/v/ ''))"
      initial_world "sample_page ''/pass_md5/xyz'' []" "''/pass_md5/xyz''"
      "''https://dood.li/pass_md5/xyz''"]
  by (simp add: sample_world sample_success sample_no_token) (simp add: sample_embed_def)

text \<open>
  The claim as stated, for every page that matches the pass_md5 pattern, fails where the
  URL parser rejects the fragment: \<open>new URL("//h:99999/pass_md5/x", "https://dood.li")\<close>
  throws a \<open>TypeError\<close> (the port is out of range), and that error leaves \<open>getDirectLink\<close>
  before the token is looked for.
\<close>

theorem token_missing_counterexample:
  "extractData PASS_MD5_PATTERN (sample_page ''//h:99999/pass_md5/x'' []) =
     Some ''//h:99999/pass_md5/x'' \<and>
   extractData TOKEN_PATTERN (sample_page ''//h:99999/pass_md5/x'' []) = None \<and>
   fst (getDirectLink
     (sample_platform (network sample_embed (sample_page ''//h:99999/pass_md5/x'' [])
        (ok_response '' https://cdn.example/v/ '')))
     (Some sample_embed) initial_world) = Inl (TypeError ''Invalid URL'') \<and>
   fst (getDirectLink
     (sample_platform (network sample_embed (sample_page ''//h:99999/pass_md5/x'' [])
        (ok_response '' https://cdn.example/v/ '')))
     (Some sample_embed) initial_world) \<noteq> Inl (Error (''Token not found in '' @ sample_embed))"
  using sample_serves_embed [of sample_embed "sample_page ''//h:99999/pass_md5/x'' []"
      "ok_response '' https://cdn.example/v/ ''" 0]
  by (auto simp add: sample_bad_fragment sample_embed_nonempty pipeline_simps sample_world
    serves_def)

text \<open>
  C4. When the pipeline has come as far as the pass_md5 endpoint and the body of its
  response is empty after trimming (it is empty, or all of it is white space, see
  \<open>trim_empty_iff\<close>), \<open>getDirectLink\<close> fails with the error
  \<open>Empty video base URL received\<close> (the EmptyResponse of the specification). The link
  builder has not run: it would have drawn ten random values, read the clock and logged
  the link (\<open>buildDirectLink_frame\<close>), and the events of the call are the two requests
  with their timers and the log lines before and after them, nothing else.
\<close>

theorem empty_response:
  assumes "url \<noteq> []"
    and "serves P (fetch_count w) url content"
    and "extractData PASS_MD5_PATTERN content = Some frag"
    and "fullUrl P frag = Inr passMd5Url"
    and "extractData TOKEN_PATTERN content = Some token"
    and "serves P (Suc (fetch_count w)) passMd5Url body"
    and "trim body = []"
  shows "fst (getDirectLink P (Some url) w) = Inl (Error ''Empty video base URL received'') \<and>
    draws (snd (getDirectLink P (Some url) w)) = draws w \<and>
    clock_reads (snd (getDirectLink P (Some url) w)) = clock_reads w \<and>
    events (snd (getDirectLink P (Some url) w)) =
      events w @
      [ConsoleLog (''Extracting direct link from Doodstream: '' @ url),
       ConsoleLog ''Fetching embed page content...'',
       SetTimeout (timer_count w) DEFAULT_REQUEST_TIMEOUT,
       Fetch url getHeaders,
       ClearTimeout (timer_count w),
       ConsoleLog (''Extracted pass_md5 URL: '' @ passMd5Url),
       ConsoleLog (''Extracted token: '' @ token),
       SetTimeout (Suc (timer_count w)) DEFAULT_REQUEST_TIMEOUT,
       Fetch passMd5Url getHeaders,
       ClearTimeout (Suc (timer_count w)),
       ConsoleError (''Failed to get video base URL from '' @ passMd5Url @ '':'')
         (Error ''Empty video base URL received''),
       ConsoleError ''Failed to extract direct link from Doodstream:''
         (Error ''Empty video base URL received'')]"
proof -
  have "fst (getDirectLink P (Some url) w) = Inl (Error ''Empty video base URL received'') \<and>
    draws (snd (getDirectLink P (Some url) w)) = draws w \<and>
    clock_reads (snd (getDirectLink P (Some url) w)) = clock_reads w"
    using assms by (auto simp add: serves_def pipeline_simps)
  with getDirectLink_blank_events [OF assms] show ?thesis by blast
qed

theorem empty_response_witness:
  "fst (getDirectLink
     (sample_platform (network sample_embed sample_content
        (ok_response [CHR 0x20, CHR 0x09, CHR 0x0A])))
     (Some sample_embed) initial_world) = Inl (Error ''Empty video base URL received'') \<and>
   draws (snd (getDirectLink
     (sample_platform (network sample_embed sample_content
        (ok_response [CHR 0x20, CHR 0x09, CHR 0x0A])))
     (Some sample_embed) initial_world)) = 0"
  using empty_response [of sample_embed
      "sample_platform (network sample_embed sample_content
        (ok_response [CHR 0x20, CHR 0x09, CHR 0x0A]))"
      initial_world sample_content "''/pass_md5/xyz''" "''https://dood.li/pass_md5/xyz''"
      "''abc123''" "[CHR 0x20, CHR 0x09, CHR 0x0A]"]
  by (simp add: sample_content_def sample_world sample_success sample_blank)

text \<open>
  C5, as amended. When the embed page is fetched and matches both patterns, a fragment
  that does not start with \<open>http\<close> is handed to the URL parser with the base
  \<open>https://dood.li\<close>, and the second request of \<open>getDirectLink\<close> goes to the URL that the
  parser returns; when the parser rejects the fragment, its error is the result and there
  is no second request. For a fragment that is a relative URL and names no host (no scheme
  and no two slashes at its start, such as \<open>/pass_md5/xyz\<close>) that URL is \<open>https://dood.li/\<close>
  followed by a path, for every parser that keeps the contract \<open>standard_parser\<close>: the
  request goes to the origin of the service. A fragment that is absolute and starts with
  \<open>http\<close> is fetched as it is. Nothing is said of a relative fragment that starts with
  \<open>http\<close>.
\<close>

theorem pass_md5_url_resolution:
  assumes "url \<noteq> []"
    and "serves P (fetch_count w) url content"
    and "extractData PASS_MD5_PATTERN content = Some frag"
    and "extractData TOKEN_PATTERN content = Some token"
  shows "(\<not> startsWith frag ''http'' \<and> relative_in_origin frag \<and> standard_parser P \<longrightarrow>
      (\<exists>rest.
         url_href P frag DOODSTREAM_BASE_URL = Inr (DOODSTREAM_BASE_URL @ ''/'' @ rest) \<and>
         requests_of (events (snd (getDirectLink P (Some url) w))) =
           requests_of (events w) @
           [(url, getHeaders), (DOODSTREAM_BASE_URL @ ''/'' @ rest, getHeaders)])) \<and>
    (\<not> startsWith frag ''http'' \<and> url_href P frag DOODSTREAM_BASE_URL = Inr resolved \<longrightarrow>
      requests_of (events (snd (getDirectLink P (Some url) w))) =
        requests_of (events w) @ [(url, getHeaders), (resolved, getHeaders)]) \<and>
    (\<not> startsWith frag ''http'' \<and> url_href P frag DOODSTREAM_BASE_URL = Inl e \<longrightarrow>
      fst (getDirectLink P (Some url) w) = Inl e \<and>
      requests_of (events (snd (getDirectLink P (Some url) w))) =
        requests_of (events w) @ [(url, getHeaders)]) \<and>
    (startsWith frag ''http'' \<and> has_scheme (url_preprocess frag) \<longrightarrow>
      requests_of (events (snd (getDirectLink P (Some url) w))) =
        requests_of (events w) @ [(url, getHeaders), (frag, getHeaders)])"
proof -
  have through_parser: "requests_of (events (snd (getDirectLink P (Some url) w))) =
      requests_of (events w) @ [(url, getHeaders), (u, getHeaders)]"
    if "\<not> startsWith frag ''http''" "url_href P frag DOODSTREAM_BASE_URL = Inr u" for u
    using assms that
    by (auto simp add: serves_def pipeline_simps fullUrl_def split: sum.splits)
  have rejected: "fst (getDirectLink P (Some url) w) = Inl e \<and>
      requests_of (events (snd (getDirectLink P (Some url) w))) =
        requests_of (events w) @ [(url, getHeaders)]"
    if "\<not> startsWith frag ''http''" "url_href P frag DOODSTREAM_BASE_URL = Inl e"
    using assms that
    by (auto simp add: serves_def pipeline_simps fullUrl_def split: sum.splits)
  have unchanged: "requests_of (events (snd (getDirectLink P (Some url) w))) =
      requests_of (events w) @ [(url, getHeaders), (frag, getHeaders)]"
    if "startsWith frag ''http''"
    using assms that
    by (auto simp add: serves_def pipeline_simps fullUrl_def split: sum.splits)
  have in_origin: "\<exists>rest.
      url_href P frag DOODSTREAM_BASE_URL = Inr (DOODSTREAM_BASE_URL @ ''/'' @ rest) \<and>
      requests_of (events (snd (getDirectLink P (Some url) w))) =
        requests_of (events w) @
        [(url, getHeaders), (DOODSTREAM_BASE_URL @ ''/'' @ rest, getHeaders)]"
    if "\<not> startsWith frag ''http''" "relative_in_origin frag" "standard_parser P"
  proof -
    from that(2,3) obtain rest where
      "url_href P frag DOODSTREAM_BASE_URL = Inr (DOODSTREAM_BASE_URL @ ''/'' @ rest)"
      unfolding standard_parser_def by blast
    with through_parser [OF that(1)] show ?thesis by blast
  qed
  from through_parser rejected unchanged in_origin show ?thesis by blast
qed

theorem pass_md5_url_resolution_witness:
  "requests_of (events (snd (getDirectLink (origin_platform sample_net) (Some sample_embed)
     initial_world))) =
     [(sample_embed, getHeaders), (''https://dood.li/pass_md5/xyz'', getHeaders)] \<and>
   requests_of (events (snd (getDirectLink
     (sample_platform (network sample_embed
        (sample_page ''//cdn.example/pass_md5/xyz'' ''?token=abc123&expiry='')
        (ok_response [])))
     (Some sample_embed) initial_world))) =
     [(sample_embed, getHeaders), (''https://cdn.example/pass_md5/xyz'', getHeaders)] \<and>
   fst (getDirectLink
     (sample_platform (network sample_embed
        (sample_page ''//h:99999/pass_md5/x'' ''?token=abc123&expiry='')
        (ok_response [])))
     (Some sample_embed) initial_world) = Inl (TypeError ''Invalid URL'') \<and>
   requests_of (events (snd (getDirectLink
     (sample_platform (network sample_embed
        (sample_page ''https://cdn.example/pass_md5/xyz'' ''?token=abc123&expiry='')
        (ok_response [])))
     (Some sample_embed) initial_world))) =
     [(sample_embed, getHeaders), (''https://cdn.example/pass_md5/xyz'', getHeaders)]"
proof -
  let ?page2 = "sample_page ''//cdn.example/pass_md5/xyz'' ''?token=abc123&expiry=''"
  let ?Q2 = "sample_platform (network sample_embed ?page2 (ok_response []))"
  let ?page3 = "sample_page ''//h:99999/pass_md5/x'' ''?token=abc123&expiry=''"
  let ?Q3 = "sample_platform (network sample_embed ?page3 (ok_response []))"
  let ?page4 = "sample_page ''https://cdn.example/pass_md5/xyz'' ''?token=abc123&expiry=''"
  let ?Q4 = "sample_platform (network sample_embed ?page4 (ok_response []))"
  note in_origin = pass_md5_url_resolution [of sample_embed "origin_platform sample_net"
    initial_world sample_content "''/pass_md5/xyz''" "''abc123''", THEN conjunct1]
  note elsewhere = pass_md5_url_resolution [of sample_embed ?Q2 initial_world ?page2
    "''//cdn.example/pass_md5/xyz''" "''abc123''" "''https://cdn.example/pass_md5/xyz''",
    THEN conjunct2, THEN conjunct1]
  note rejected = pass_md5_url_resolution [of sample_embed ?Q3 initial_world ?page3
    "''//h:99999/pass_md5/x''" "''abc123''" _ "TypeError ''Invalid URL''",
    THEN conjunct2, THEN conjunct2, THEN conjunct1]
  note absolute = pass_md5_url_resolution [of sample_embed ?Q4 initial_world ?page4
    "''https://cdn.example/pass_md5/xyz''" "''abc123''",
    THEN conjunct2, THEN conjunct2, THEN conjunct2]
  have "requests_of (events (snd (getDirectLink (origin_platform sample_net)
      (Some sample_embed) initial_world))) =
      [(sample_embed, getHeaders), (''https://dood.li/pass_md5/xyz'', getHeaders)]"
    using in_origin
    by (auto simp add: sample_net_def sample_content_def sample_world sample_success
      origin_platform_facts origin_platform_standard sample_kinds sample_startsWith
      origin_parser_sample DOODSTREAM_BASE_URL_def)
  moreover have "requests_of (events (snd (getDirectLink ?Q2 (Some sample_embed)
      initial_world))) =
      [(sample_embed, getHeaders), (''https://cdn.example/pass_md5/xyz'', getHeaders)]"
    using elsewhere
    by (simp add: sample_world sample_embed_nonempty sample_serves_embed
      sample_network_path_fragment sample_kinds sample_startsWith sample_href_facts)
  moreover have "fst (getDirectLink ?Q3 (Some sample_embed) initial_world) =
      Inl (TypeError ''Invalid URL'')"
    using rejected
    by (simp add: sample_world sample_embed_nonempty sample_serves_embed
      sample_bad_fragment_token sample_kinds sample_startsWith sample_href_facts)
  moreover have "requests_of (events (snd (getDirectLink ?Q4 (Some sample_embed)
      initial_world))) =
      [(sample_embed, getHeaders), (''https://cdn.example/pass_md5/xyz'', getHeaders)]"
    using absolute
    by (simp add: sample_world sample_embed_nonempty sample_serves_embed
      sample_absolute_fragment sample_kinds sample_startsWith)
  ultimately show ?thesis by simp
qed

text \<open>
  The claim as stated fails for a relative fragment that names a host. The fragment
  \<open>//cdn.example/pass_md5/xyz\<close> has no scheme, so it is a relative URL, and it starts with
  two slashes. The URL parser resolves it against the base to
  \<open>https://cdn.example/pass_md5/xyz\<close>: it takes the scheme of the base and the host of the
  fragment. The request does not go to the origin of the service.
\<close>

theorem pass_md5_url_resolution_counterexample:
  "extractData PASS_MD5_PATTERN
     (sample_page ''//cdn.example/pass_md5/xyz'' ''?token=abc123&expiry='') =
     Some ''//cdn.example/pass_md5/xyz'' \<and>
   \<not> has_scheme (url_preprocess ''//cdn.example/pass_md5/xyz'') \<and>
   network_path (url_preprocess ''//cdn.example/pass_md5/xyz'') \<and>
   requests_of (events (snd (getDirectLink
     (sample_platform (network sample_embed
        (sample_page ''//cdn.example/pass_md5/xyz'' ''?token=abc123&expiry='') (ok_response [])))
     (Some sample_embed) initial_world))) =
     [(sample_embed, getHeaders), (''https://cdn.example/pass_md5/xyz'', getHeaders)] \<and>
   \<not> startsWith ''https://cdn.example/pass_md5/xyz'' DOODSTREAM_BASE_URL"
proof -
  let ?page = "sample_page ''//cdn.example/pass_md5/xyz'' ''?token=abc123&expiry=''"
  let ?Q = "sample_platform (network sample_embed ?page (ok_response []))"
  have elsewhere: "\<not> startsWith ''https://cdn.example/pass_md5/xyz'' DOODSTREAM_BASE_URL"
    by (simp add: startsWith_def DOODSTREAM_BASE_URL_def)
  have run: "requests_of (events (snd (getDirectLink ?Q (Some sample_embed) initial_world))) =
      [(sample_embed, getHeaders), (''https://cdn.example/pass_md5/xyz'', getHeaders)]"
    using sample_serves_embed [of sample_embed ?page "ok_response []" 0]
    by (auto simp add: serves_def pipeline_simps sample_embed_nonempty sample_world
      sample_network_path_fragment split: sum.splits)
  show ?thesis
    using elsewhere run by (simp add: sample_network_path_fragment sample_kinds)
qed

text \<open>
  C6, as amended. When \<open>getDirectLink\<close> succeeds on the embed URL and the URL parser
  accepts the URL, \<open>getMetadata\<close> returns the link as \<open>mp4\<close>, the quality \<open>Unknown\<close>,
  the size \<open>null\<close>, the headers of \<open>_getHeaders\<close>, and as name \<open>doodstream_\<close>, the file id
  and \<open>.mp4\<close>, where the file id is the last segment of the path of the URL (what follows
  its last slash, see \<open>last_split\<close>), or \<open>video\<close> when that segment is empty. The world is
  the one that \<open>getDirectLink\<close> leaves.
\<close>

theorem metadata_fields:
  assumes "getDirectLink P (Some url) w = (Inr link, w')"
    and "url_pathname P url = Inr pathname"
  shows "getMetadata P (Some url) w =
    (Inr \<lparr>mp4 = link,
          name = ''doodstream_'' @
            (if last (split CHR ''/'' pathname) = [] then ''video''
             else last (split CHR ''/'' pathname)) @ ''.mp4'',
          quality = ''Unknown'', size_m = None, headers = getHeaders\<rparr>, w')"
  using assms by (simp add: getMetadata_def getMetadata_try_def log_and_rethrow_def)

theorem metadata_fields_witness:
  "fst (getMetadata (sample_platform sample_net) (Some sample_embed) initial_world) =
     Inr \<lparr>mp4 = ''https://cdn.example/v/AGMSYflrx3?token=abc123&expiry=1700000000'',
          name = ''doodstream_abc123.mp4'', quality = ''Unknown'', size_m = None,
          headers = getHeaders\<rparr>"
proof -
  let ?P = "sample_platform sample_net"
  have run: "getDirectLink ?P (Some sample_embed) initial_world =
      (Inr ''https://cdn.example/v/AGMSYflrx3?token=abc123&expiry=1700000000'',
       snd (getDirectLink ?P (Some sample_embed) initial_world))"
    using sample_link by (simp add: prod_eq_iff)
  show ?thesis
    using metadata_fields [OF run sample_pathname_facts(1)] by simp
qed

text \<open>
  The claim as stated takes the last segment that is not empty. On
  \<open>https://dood.li/e/abc123/\<close> that is \<open>abc123\<close>, but the last segment of the path is
  empty and the code names the file \<open>doodstream_video.mp4\<close>.
\<close>

theorem metadata_fields_counterexample:
  "fst (getMetadata
     (sample_platform (network ''https://dood.li/e/abc123/'' sample_content
        (ok_response '' https://cdn.example/v/ '')))
     (Some ''https://dood.li/e/abc123/'') initial_world) =
     Inr \<lparr>mp4 = ''https://cdn.example/v/AGMSYflrx3?token=abc123&expiry=1700000000'',
          name = ''doodstream_video.mp4'', quality = ''Unknown'', size_m = None,
          headers = getHeaders\<rparr> \<and>
   ''doodstream_'' @ last_nonempty_segment ''/e/abc123/'' @ ''.mp4'' = ''doodstream_abc123.mp4'' \<and>
   ''doodstream_video.mp4'' \<noteq> ''doodstream_'' @ last_nonempty_segment ''/e/abc123/'' @ ''.mp4''"
proof -
  let ?u = "''https://dood.li/e/abc123/''"
  let ?P = "sample_platform (network ?u sample_content (ok_response '' https://cdn.example/v/ ''))"
  have "fst (getDirectLink ?P (Some ?u) initial_world) =
      Inr ''https://cdn.example/v/AGMSYflrx3?token=abc123&expiry=1700000000''"
    using getDirectLink_success(1) [of ?u ?P initial_world
      sample_content "''/pass_md5/xyz''" "''https://dood.li/pass_md5/xyz''" "''abc123''"
      "'' https://cdn.example/v/ ''"]
    by (simp add: sample_content_def sample_world sample_trailing_page sample_pass_md5
      sample_fullUrl sample_token sample_trim generateRandomString_fst sample_suffix
      sample_expiry)
  then have "fst (getMetadata ?P (Some ?u) initial_world) =
     Inr \<lparr>mp4 = ''https://cdn.example/v/AGMSYflrx3?token=abc123&expiry=1700000000'',
          name = ''doodstream_video.mp4'', quality = ''Unknown'', size_m = None,
          headers = getHeaders\<rparr>"
    by (simp add: getMetadata_def getMetadata_try_def case_prod_beta sample_pathname_facts)
  moreover have "''doodstream_'' @ last_nonempty_segment ''/e/abc123/'' @ ''.mp4'' =
      ''doodstream_abc123.mp4''"
    by (simp add: last_nonempty_segment_def)
  ultimately show ?thesis by simp
qed

lemma timer_cleared_when_resolved:
  assumes "fetch P (fetch_count w) url hs = Resolves r" "timer_count w \<notin> set (timers w)"
  shows "timers (snd (makeRequest P url hs w)) = timers w"
    and "\<exists>rest. events (snd (makeRequest P url hs w)) =
      events w @ [SetTimeout (timer_count w) DEFAULT_REQUEST_TIMEOUT, Fetch url hs,
                  ClearTimeout (timer_count w)] @ rest"
  using assms
  by (simp_all add: makeRequest_def makeRequest_try_def setTimeout_def Let_def world_ops)

lemma timer_gone_when_timed_out:
  assumes "fetch P (fetch_count w) url hs = TimesOut" "timer_count w \<notin> set (timers w)"
  shows "timers (snd (makeRequest P url hs w)) = timers w"
  using assms
  by (simp add: makeRequest_def makeRequest_try_def setTimeout_def Let_def world_ops)

text \<open>
  C7. The timer is set before \<open>fetch\<close> is called. When \<open>fetch\<close> rejects with an error of
  its own (the network is down, say), \<open>_makeRequest\<close> rethrows the error and the timer is
  still armed: \<open>clearTimeout\<close> stands after the \<open>await\<close> and is not reached. The claim
  that the timer is disarmed on every exit path does not hold for the code on this path;
  it holds when \<open>fetch\<close> resolves, whatever the status (\<open>timer_cleared_when_resolved\<close>).
\<close>

theorem timer_left_armed_on_rejection:
  assumes "fetch P (fetch_count w) url hs = Rejects e"
  shows "fst (makeRequest P url hs w) = Inl e \<and>
    timers (snd (makeRequest P url hs w)) = timer_count w # timers w \<and>
    events (snd (makeRequest P url hs w)) =
      events w @ [SetTimeout (timer_count w) DEFAULT_REQUEST_TIMEOUT, Fetch url hs,
                  ConsoleError (''Request failed for '' @ url @ '':'') e]"
  using assms
  by (simp add: makeRequest_def makeRequest_try_def setTimeout_def Let_def world_ops)

theorem timer_left_armed_on_rejection_witness:
  "fst (makeRequest (sample_platform []) sample_embed getHeaders initial_world) =
     Inl (TypeError ''Failed to fetch'') \<and>
   timers (snd (makeRequest (sample_platform []) sample_embed getHeaders initial_world)) = [0]"
  using timer_left_armed_on_rejection [of "sample_platform []" initial_world sample_embed
      getHeaders "TypeError ''Failed to fetch''"]
  by (simp add: sample_fetch sample_world)

text \<open>
  C8, as amended. Two invocations of \<open>getDirectLink\<close> that meet the same embed page and
  the same body of the pass_md5 endpoint return links that consist of the same base URL
  and the same token, each with its own random string and its own expiry; the two links
  are equal exactly when the two random strings are equal and the two expiry strings are
  equal. The random strings are those of \<open>_generateRandomString\<close> with the double product,
  for a \<open>Math.random()\<close> that keeps its contract (a double that is at least 0 and less
  than 1).
\<close>

theorem links_differ_only_in_suffix_and_expiry:
  assumes "url \<noteq> []"
    and "extractData PASS_MD5_PATTERN content = Some frag"
    and "fullUrl P frag = Inr passMd5Url"
    and "extractData TOKEN_PATTERN content = Some token"
    and "trim body \<noteq> []"
    and "serves P (fetch_count w1) url content"
    and "serves P (Suc (fetch_count w1)) passMd5Url body"
    and "serves P (fetch_count w2) url content"
    and "serves P (Suc (fetch_count w2)) passMd5Url body"
    and "\<forall>n. in_unit_interval (math_random P n)"
  shows "fst (getDirectLink P (Some url) w1) =
      Inr (trim body @ fst (generateRandomString P 10 w1) @ ''?token='' @ token @ ''&expiry='' @
        number_to_string (date_now P (clock_reads w1) div 1000)) \<and>
    fst (getDirectLink P (Some url) w2) =
      Inr (trim body @ fst (generateRandomString P 10 w2) @ ''?token='' @ token @ ''&expiry='' @
        number_to_string (date_now P (clock_reads w2) div 1000)) \<and>
    (fst (getDirectLink P (Some url) w1) = fst (getDirectLink P (Some url) w2) \<longleftrightarrow>
       fst (generateRandomString P 10 w1) = fst (generateRandomString P 10 w2) \<and>
       number_to_string (date_now P (clock_reads w1) div 1000) =
         number_to_string (date_now P (clock_reads w2) div 1000))"
proof -
  note l1 = getDirectLink_success(1) [OF assms(1) assms(6) assms(2-4) assms(7) assms(5)]
  note l2 = getDirectLink_success(1) [OF assms(1) assms(8) assms(2-4) assms(9) assms(5)]
  have len: "length (fst (generateRandomString P 10 w1)) =
      length (fst (generateRandomString P 10 w2))"
    using random_string_chars(1) [OF assms(10)] by simp
  show ?thesis
    unfolding l1 l2 using len by simp
qed

theorem links_differ_only_in_suffix_and_expiry_witness:
  "fst (getDirectLink (spread_random (sample_platform sample_net)) (Some sample_embed)
     initial_world) =
     Inr ''https://cdn.example/v/ABDFHJLNPR?token=abc123&expiry=1700000000'' \<and>
   fst (getDirectLink (spread_random (sample_platform sample_net)) (Some sample_embed)
     (snd (getDirectLink (spread_random (sample_platform sample_net)) (Some sample_embed)
        initial_world))) =
     Inr ''https://cdn.example/v/TVXZbdfgik?token=abc123&expiry=1700000000''"
  using links_differ_only_in_suffix_and_expiry [of sample_embed sample_content
      "''/pass_md5/xyz''" "spread_random (sample_platform sample_net)"
      "''https://dood.li/pass_md5/xyz''" "''abc123''" "'' https://cdn.example/v/ ''"
      initial_world
      "snd (getDirectLink (spread_random (sample_platform sample_net)) (Some sample_embed)
         initial_world)"]
  by (simp add: spread_second_run spread_facts spread_in_unit_interval sample_world
      generateRandomString_fst spread_suffix sample_expiry sample_trim)
     (simp add: sample_net_def sample_content_def sample_success)

text \<open>
  The claim as stated, that the two links are never identical, fails when the random
  source yields the same ten characters again and both calls read the clock within the
  same second: nothing in the code excludes it.
\<close>

theorem identical_links_counterexample:
  "fst (getDirectLink (sample_platform sample_net) (Some sample_embed) initial_world) =
     Inr ''https://cdn.example/v/AGMSYflrx3?token=abc123&expiry=1700000000'' \<and>
   fst (getDirectLink (sample_platform sample_net) (Some sample_embed)
     (snd (getDirectLink (sample_platform sample_net) (Some sample_embed) initial_world))) =
     Inr ''https://cdn.example/v/AGMSYflrx3?token=abc123&expiry=1700000000'' \<and>
   fst (getDirectLink (sample_platform sample_net) (Some sample_embed) initial_world) =
   fst (getDirectLink (sample_platform sample_net) (Some sample_embed)
     (snd (getDirectLink (sample_platform sample_net) (Some sample_embed) initial_world)))"
proof -
  let ?P = "sample_platform sample_net"
  let ?w = "snd (getDirectLink ?P (Some sample_embed) initial_world)"
  have "fst (getDirectLink ?P (Some sample_embed) ?w) =
      Inr ''https://cdn.example/v/AGMSYflrx3?token=abc123&expiry=1700000000''"
    using getDirectLink_success(1) [of sample_embed ?P ?w
      sample_content "''/pass_md5/xyz''" "''https://dood.li/pass_md5/xyz''" "''abc123''"
      "'' https://cdn.example/v/ ''"]
    by (simp add: sample_second_run generateRandomString_fst sample_suffix_again sample_expiry
      sample_trim) (simp add: sample_net_def sample_content_def sample_success)
  with sample_link show ?thesis by simp
qed

text \<open>
  C9. When \<open>fetch\<close> resolves with a response whose status is outside 200 to 299,
  \<open>_makeRequest\<close> fails with the error \<open>HTTP error! status:\<close> followed by the status
  code (the HttpError of the specification); and when that happens to the request for the
  embed page or to the request for the pass_md5 URL, the same error is the result of
  \<open>getDirectLink\<close>.
\<close>

theorem http_error_propagates:
  assumes "\<not> ok r"
  shows "(fetch P (fetch_count w) url hs = Resolves r \<longrightarrow>
      fst (makeRequest P url hs w) =
        Inl (Error (''HTTP error! status: '' @ number_to_string (int (status r))))) \<and>
    (url \<noteq> [] \<and> fetch P (fetch_count w) url getHeaders = Resolves r \<longrightarrow>
      fst (getDirectLink P (Some url) w) =
        Inl (Error (''HTTP error! status: '' @ number_to_string (int (status r))))) \<and>
    (url \<noteq> [] \<and> serves P (fetch_count w) url content \<and>
     extractData PASS_MD5_PATTERN content = Some frag \<and> fullUrl P frag = Inr passMd5Url \<and>
     extractData TOKEN_PATTERN content = Some token \<and>
     fetch P (Suc (fetch_count w)) passMd5Url getHeaders = Resolves r \<longrightarrow>
      fst (getDirectLink P (Some url) w) =
        Inl (Error (''HTTP error! status: '' @ number_to_string (int (status r)))))"
  using assms by (auto simp add: serves_def pipeline_simps)

theorem http_error_propagates_witness:
  "fst (makeRequest (sample_platform [(sample_embed, status_response 404)]) sample_embed
     getHeaders initial_world) = Inl (Error ''HTTP error! status: 404'') \<and>
   fst (getDirectLink (sample_platform [(sample_embed, status_response 404)])
     (Some sample_embed) initial_world) = Inl (Error ''HTTP error! status: 404'') \<and>
   fst (getDirectLink (sample_platform (network sample_embed sample_content (status_response 404)))
     (Some sample_embed) initial_world) = Inl (Error ''HTTP error! status: 404'')"
proof -
  let ?r = "\<lparr>status = 404, text_result = Inr []\<rparr>"
  let ?P = "sample_platform [(sample_embed, status_response 404)]"
  let ?Q = "sample_platform (network sample_embed sample_content (status_response 404))"
  have r: "\<not> ok ?r" by (rule sample_status)
  note first = http_error_propagates [OF r, of ?P initial_world sample_embed getHeaders,
    THEN conjunct1]
  note page = http_error_propagates [OF r, of ?P initial_world sample_embed getHeaders,
    THEN conjunct2, THEN conjunct1]
  note md5 = http_error_propagates [OF r, of ?Q initial_world sample_embed getHeaders
    sample_content "''/pass_md5/xyz''" "''https://dood.li/pass_md5/xyz''" "''abc123''",
    THEN conjunct2, THEN conjunct2]
  show ?thesis
    using first page md5
    by (simp add: sample_status sample_fetch_status sample_embed_not_md5 sample_world
      sample_content_def sample_success)
qed

text \<open>
  C10. When the embed page is fetched and matches neither pattern, \<open>getDirectLink\<close> fails
  with the error \<open>pass_md5 URL not found in\<close> followed by the embed URL, and not with the
  error for the token.
\<close>

theorem pass_md5_missing_first:
  assumes "url \<noteq> []"
    and "serves P (fetch_count w) url content"
    and "extractData PASS_MD5_PATTERN content = None"
    and "extractData TOKEN_PATTERN content = None"
  shows "fst (getDirectLink P (Some url) w) = Inl (Error (''pass_md5 URL not found in '' @ url)) \<and>
    fst (getDirectLink P (Some url) w) \<noteq> Inl (Error (''Token not found in '' @ url))"
  using assms by (auto simp add: serves_def pipeline_simps)

theorem pass_md5_missing_first_witness:
  "fst (getDirectLink
     (sample_platform [(sample_embed, ok_response ''<html>pass_md5 token</html>'')])
     (Some sample_embed) initial_world) =
     Inl (Error ''pass_md5 URL not found in https://dood.li/e/abc123'')"
  using pass_md5_missing_first [of sample_embed
      "sample_platform [(sample_embed, ok_response ''<html>pass_md5 token</html>'')]"
      initial_world "''<html>pass_md5 token</html>''"]
  by (simp add: sample_plain sample_embed_nonempty sample_world serves_def sample_fetch
    ok_response_def ok_def) (simp add: sample_embed_def)

end
